theory Spec2Isabelle
  imports Complex_Main "HOL-Library.Sublist"
begin

section \<open>The form state of App.tsx\<close>

text \<open>
  Strings are \<open>string\<close> (a list of 8-bit characters); a character beyond ASCII is
  written as its UTF-8 bytes. A JavaScript string is falsy exactly when it is empty,
  so \<open>a || b\<close> on strings is \<open>or_else a b\<close>.
\<close>

definition or_else :: "string \<Rightarrow> string \<Rightarrow> string" where
  "or_else a b = (if a \<noteq> [] then a else b)"

record Customer =
  fullName :: string
  email :: string
  street :: string
  city :: string
  phone :: string

record Order =
  orderNumber :: string
  technician :: string
  technicianTwo :: string
  month :: string
  year :: string
  company :: string

text \<open>The field \<open>id\<close> of a service entry is \<open>id'\<close> here (\<open>id\<close> is the identity of HOL).\<close>

record ServiceEntry =
  id' :: string
  date :: string
  description :: string
  hours :: string
  rate :: string

text \<open>The entries of \<open>companyOptions\<close>; the field \<open>value\<close> is \<open>value'\<close>.\<close>

record CompanyOption =
  label :: string
  value' :: string
  address :: string

definition companyOptions :: "CompanyOption list" where
  "companyOptions =
     [\<lparr>label = ''IT Systemhaus Alsleben GmbH'', value' = ''alsleben'',
        address = ''Treskowallee 114, 10319 Berlin''\<rparr>,
      \<lparr>label = ''Talk & Phone GmbH'', value' = ''talk-phone'',
        address = ''Treskowallee 114, 10319 Berlin''\<rparr>]"

definition paymentOptions :: "string list" where
  "paymentOptions = [''Barzahlung'', ''Kartenzahlung'', ''Rechnung'']"

text \<open>
  \<open>createEmptyService\<close> draws its id from \<open>crypto.randomUUID()\<close>; the model takes the
  drawn id as an argument.
\<close>

definition createEmptyService :: "string \<Rightarrow> ServiceEntry" where
  "createEmptyService uuid =
     \<lparr>id' = uuid, date = [], description = [], hours = [], rate = []\<rparr>"

text \<open>
  The state of the component \<open>App\<close>: one field per \<open>useState\<close>. A signature is
  \<open>string | null\<close>: the data URL of an image, or absent.
\<close>

record AppState =
  customer :: Customer
  order :: Order
  paymentMethod :: string
  services :: "ServiceEntry list"
  showSecondTechnician :: bool
  companyTouched :: bool
  technicianSignature :: "string option"
  customerSignature :: "string option"

text \<open>
  The initial state. \<open>thisYear\<close> is \<open>new Date().getFullYear().toString()\<close> and \<open>uuid\<close>
  the id drawn for the first service entry.
\<close>

definition initialState :: "string \<Rightarrow> string \<Rightarrow> AppState" where
  "initialState thisYear uuid =
     \<lparr>customer = \<lparr>fullName = [], email = [], street = [], city = [], phone = []\<rparr>,
      order = \<lparr>orderNumber = [], technician = [], technicianTwo = [], month = [],
               year = thisYear, company = []\<rparr>,
      paymentMethod = hd paymentOptions,
      services = [createEmptyService uuid],
      showSecondTechnician = False,
      companyTouched = False,
      technicianSignature = None,
      customerSignature = None\<rparr>"

subsection \<open>Field updates\<close>

text \<open>The keys of \<open>Customer\<close>, of \<open>Order\<close> and of \<open>Omit<ServiceEntry, 'id'>\<close>.\<close>

datatype CustomerKey = K_fullName | K_email | K_street | K_city | K_phone

datatype OrderKey =
  K_orderNumber | K_technician | K_technicianTwo | K_month | K_year | K_company

datatype ServiceKey = K_date | K_description | K_hours | K_rate

text \<open>The object spread \<open>{ ...prev, [field]: value }\<close>, one function per record type.\<close>

fun setCustomerField :: "CustomerKey \<Rightarrow> string \<Rightarrow> Customer \<Rightarrow> Customer" where
  "setCustomerField K_fullName v c = c\<lparr>fullName := v\<rparr>"
| "setCustomerField K_email v c = c\<lparr>email := v\<rparr>"
| "setCustomerField K_street v c = c\<lparr>street := v\<rparr>"
| "setCustomerField K_city v c = c\<lparr>city := v\<rparr>"
| "setCustomerField K_phone v c = c\<lparr>phone := v\<rparr>"

fun setOrderField :: "OrderKey \<Rightarrow> string \<Rightarrow> Order \<Rightarrow> Order" where
  "setOrderField K_orderNumber v ord = ord\<lparr>orderNumber := v\<rparr>"
| "setOrderField K_technician v ord = ord\<lparr>technician := v\<rparr>"
| "setOrderField K_technicianTwo v ord = ord\<lparr>technicianTwo := v\<rparr>"
| "setOrderField K_month v ord = ord\<lparr>month := v\<rparr>"
| "setOrderField K_year v ord = ord\<lparr>year := v\<rparr>"
| "setOrderField K_company v ord = ord\<lparr>company := v\<rparr>"

fun setServiceField :: "ServiceKey \<Rightarrow> string \<Rightarrow> ServiceEntry \<Rightarrow> ServiceEntry" where
  "setServiceField K_date v s = s\<lparr>date := v\<rparr>"
| "setServiceField K_description v s = s\<lparr>description := v\<rparr>"
| "setServiceField K_hours v s = s\<lparr>hours := v\<rparr>"
| "setServiceField K_rate v s = s\<lparr>rate := v\<rparr>"

definition handleCustomerChange :: "CustomerKey \<Rightarrow> string \<Rightarrow> AppState \<Rightarrow> AppState" where
  "handleCustomerChange field v st = st\<lparr>customer := setCustomerField field v (customer st)\<rparr>"

definition handleOrderChange :: "OrderKey \<Rightarrow> string \<Rightarrow> AppState \<Rightarrow> AppState" where
  "handleOrderChange field v st = st\<lparr>order := setOrderField field v (order st)\<rparr>"

definition handleServiceChange ::
  "string \<Rightarrow> ServiceKey \<Rightarrow> string \<Rightarrow> AppState \<Rightarrow> AppState" where
  "handleServiceChange i field v st =
     st\<lparr>services :=
          map (\<lambda>service. if id' service = i then setServiceField field v service else service)
            (services st)\<rparr>"

definition addService :: "string \<Rightarrow> AppState \<Rightarrow> AppState" where
  "addService uuid st = st\<lparr>services := services st @ [createEmptyService uuid]\<rparr>"

definition removeService :: "string \<Rightarrow> AppState \<Rightarrow> AppState" where
  "removeService i st =
     st\<lparr>services :=
          (if length (services st) = 1 then services st
           else filter (\<lambda>service. id' service \<noteq> i) (services st))\<rparr>"

definition handleAddSecondTechnician :: "AppState \<Rightarrow> AppState" where
  "handleAddSecondTechnician st = st\<lparr>showSecondTechnician := True\<rparr>"

definition handleRemoveSecondTechnician :: "AppState \<Rightarrow> AppState" where
  "handleRemoveSecondTechnician st =
     handleOrderChange K_technicianTwo [] (st\<lparr>showSecondTechnician := False\<rparr>)"

subsection \<open>Derived values: the company lookup\<close>

definition companyAddress :: "AppState \<Rightarrow> string" where
  "companyAddress st =
     (case find (\<lambda>c. value' c = company (order st)) companyOptions of
        Some c \<Rightarrow> address c
      | None \<Rightarrow> [])"

definition companyLabel :: "AppState \<Rightarrow> string" where
  "companyLabel st =
     (case find (\<lambda>c. value' c = company (order st)) companyOptions of
        Some c \<Rightarrow> label c
      | None \<Rightarrow> [])"

definition companyError :: "AppState \<Rightarrow> bool" where
  "companyError st = (companyTouched st \<and> company (order st) = [])"

text \<open>
  The lines of the two header blocks of the document: an array literal, then
  \<open>.filter(Boolean)\<close>, which keeps the non-empty strings.
\<close>

definition technicianLines :: "AppState \<Rightarrow> string list" where
  "technicianLines st =
     filter (\<lambda>l. l \<noteq> [])
       [or_else (technician (order st)) ''-'',
        (if technicianTwo (order st) \<noteq> [] then ''+ '' @ technicianTwo (order st) else []),
        companyLabel st,
        companyAddress st]"

definition customerLines :: "AppState \<Rightarrow> string list" where
  "customerLines st =
     filter (\<lambda>l. l \<noteq> [])
       [or_else (fullName (customer st)) ''-'',
        or_else (street (customer st)) [],
        or_else (city (customer st)) [],
        (if phone (customer st) \<noteq> [] then ''Tel: '' @ phone (customer st) else []),
        (if email (customer st) \<noteq> [] then ''E-Mail: '' @ email (customer st) else [])]"

section \<open>JavaScript numbers, parsing and formatting\<close>

text \<open>
  A JavaScript number is a finite value, NaN or one of the two infinities. A finite
  value is held as the rational it denotes. The rounding of a real result to the nearest
  binary64 value is the parameter \<open>rnd\<close> of every operation that rounds; nothing is
  assumed of it, so what is proved holds for the rounding of the engine, and an example
  is evaluated with the rounding \<open>Finite\<close>, which is the engine's on every value that
  binary64 holds exactly. The sign of zero is not modelled.
\<close>

datatype number = Finite rat | NaN | PosInf | NegInf

text \<open>\<open>Number.isFinite\<close>.\<close>

fun isFinite :: "number \<Rightarrow> bool" where
  "isFinite (Finite x) = True"
| "isFinite v = False"

text \<open>The operator \<open>+\<close> on two numbers.\<close>

fun jsAdd :: "(rat \<Rightarrow> number) \<Rightarrow> number \<Rightarrow> number \<Rightarrow> number" where
  "jsAdd rnd (Finite a) (Finite b) = rnd (a + b)"
| "jsAdd rnd NaN b = NaN"
| "jsAdd rnd a NaN = NaN"
| "jsAdd rnd PosInf NegInf = NaN"
| "jsAdd rnd NegInf PosInf = NaN"
| "jsAdd rnd PosInf b = PosInf"
| "jsAdd rnd NegInf b = NegInf"
| "jsAdd rnd a PosInf = PosInf"
| "jsAdd rnd a NegInf = NegInf"

subsection \<open>parseFloat\<close>

text \<open>
  The white space that \<open>parseFloat\<close> and \<open>trim\<close> strip is the language's
  \<open>WhiteSpace\<close> and \<open>LineTerminator\<close>: tab, line feed, vertical tab, form feed,
  carriage return, space, and beyond ASCII the code points U+00A0, U+1680, U+2000 to
  U+200A, U+2028, U+2029, U+202F, U+205F, U+3000 and U+FEFF, each listed here as its
  UTF-8 bytes.
\<close>

definition whiteSpaceChars :: "string list" where
  "whiteSpaceChars =
     [[CHR 0x09], [CHR 0x0A], [CHR 0x0B], [CHR 0x0C], [CHR 0x0D], [CHR 0x20],
      [CHR 0xC2, CHR 0xA0],
      [CHR 0xE1, CHR 0x9A, CHR 0x80],
      [CHR 0xE2, CHR 0x80, CHR 0x80], [CHR 0xE2, CHR 0x80, CHR 0x81],
      [CHR 0xE2, CHR 0x80, CHR 0x82], [CHR 0xE2, CHR 0x80, CHR 0x83],
      [CHR 0xE2, CHR 0x80, CHR 0x84], [CHR 0xE2, CHR 0x80, CHR 0x85],
      [CHR 0xE2, CHR 0x80, CHR 0x86], [CHR 0xE2, CHR 0x80, CHR 0x87],
      [CHR 0xE2, CHR 0x80, CHR 0x88], [CHR 0xE2, CHR 0x80, CHR 0x89],
      [CHR 0xE2, CHR 0x80, CHR 0x8A],
      [CHR 0xE2, CHR 0x80, CHR 0xA8], [CHR 0xE2, CHR 0x80, CHR 0xA9],
      [CHR 0xE2, CHR 0x80, CHR 0xAF],
      [CHR 0xE2, CHR 0x81, CHR 0x9F],
      [CHR 0xE3, CHR 0x80, CHR 0x80],
      [CHR 0xEF, CHR 0xBB, CHR 0xBF]]"

text \<open>
  \<open>skipAny ws s\<close> removes from the head of \<open>s\<close> every leading occurrence of one of
  the byte sequences \<open>ws\<close>. \<open>trimStart\<close> strips the leading white space, \<open>trimEnd\<close> the
  trailing white space (the same, read from the end), and \<open>trim\<close>, which is
  \<open>String.prototype.trim\<close>, both.
\<close>

function skipAny :: "string list \<Rightarrow> string \<Rightarrow> string" where
  "skipAny ws s =
     (case find (\<lambda>w. w \<noteq> [] \<and> prefix w s) ws of
        None \<Rightarrow> s
      | Some w \<Rightarrow> skipAny ws (drop (length w) s))"
  by pat_completeness auto
termination
proof (relation "measure (\<lambda>(ws, s). length s)")
  show "wf (measure (\<lambda>(ws, s). length s))"
    by simp
next
  fix ws :: "string list" and s w :: string
  assume "find (\<lambda>w. w \<noteq> [] \<and> prefix w s) ws = Some w"
  then have "w \<noteq> []" "prefix w s"
    by (auto simp add: find_Some_iff)
  then have "s \<noteq> []" "0 < length w"
    by auto
  then show "((ws, drop (length w) s), (ws, s)) \<in> measure (\<lambda>(ws, s). length s)"
    by simp
qed

declare skipAny.simps [simp del]

definition trimStart :: "string \<Rightarrow> string" where
  "trimStart s = skipAny whiteSpaceChars s"

definition trimEnd :: "string \<Rightarrow> string" where
  "trimEnd s = rev (skipAny (map rev whiteSpaceChars) (rev s))"

definition trim :: "string \<Rightarrow> string" where
  "trim s = trimEnd (trimStart s)"

text \<open>
  \<open>parseFloat\<close> (which \<open>Number.parseFloat\<close> is too) skips leading white space and
  reads the longest prefix of the rest that is a \<open>StrDecimalLiteral\<close> of ECMAScript: an
  optional sign, then \<open>Infinity\<close> or decimal digits with an optional fraction and an
  optional exponent. With no such prefix the result is NaN.
\<close>

definition isDigit :: "char \<Rightarrow> bool" where
  "isDigit c = (48 \<le> (of_char c :: nat) \<and> (of_char c :: nat) \<le> 57)"

definition digitsValue :: "string \<Rightarrow> nat" where
  "digitsValue ds = foldl (\<lambda>a c. 10 * a + (of_char c - 48)) 0 ds"

text \<open>
  The exponent read at the head of \<open>s\<close>: \<open>e\<close> or \<open>E\<close>, an optional sign and at least
  one digit; anything else is no exponent part, and the literal ends before it.
\<close>

definition exponentPart :: "string \<Rightarrow> int" where
  "exponentPart s =
     (case s of
        [] \<Rightarrow> 0
      | c # r \<Rightarrow>
          if c = CHR ''e'' \<or> c = CHR ''E'' then
            (case r of
               [] \<Rightarrow> 0
             | d # r' \<Rightarrow>
                 if d = CHR ''+'' then
                   (if takeWhile isDigit r' = [] then 0
                    else int (digitsValue (takeWhile isDigit r')))
                 else if d = CHR ''-'' then
                   (if takeWhile isDigit r' = [] then 0
                    else - int (digitsValue (takeWhile isDigit r')))
                 else
                   (if takeWhile isDigit r = [] then 0
                    else int (digitsValue (takeWhile isDigit r))))
          else 0)"

definition scale10 :: "rat \<Rightarrow> int \<Rightarrow> rat" where
  "scale10 m e = (if 0 \<le> e then m * 10 ^ nat e else m / 10 ^ nat (- e))"

text \<open>
  The value of the longest prefix that is digits, \<open>digits.\<close>, \<open>digits.digits\<close> or
  \<open>.digits\<close>, each with an optional exponent part; \<open>None\<close> when there is no digit.
\<close>

definition strUnsignedDecimalLiteral :: "string \<Rightarrow> rat option" where
  "strUnsignedDecimalLiteral s =
     (let ip = takeWhile isDigit s;
          r1 = dropWhile isDigit s;
          dot = (r1 \<noteq> [] \<and> hd r1 = CHR ''.'');
          fp = (if dot then takeWhile isDigit (tl r1) else []);
          r2 = (if dot then dropWhile isDigit (tl r1) else r1)
      in if ip = [] \<and> fp = [] then None
         else Some (scale10 (of_nat (digitsValue (ip @ fp)) / 10 ^ length fp)
                      (exponentPart r2)))"

definition parseFloat :: "(rat \<Rightarrow> number) \<Rightarrow> string \<Rightarrow> number" where
  "parseFloat rnd s =
     (let t = trimStart s;
          neg = (t \<noteq> [] \<and> hd t = CHR ''-'');
          u = (if t \<noteq> [] \<and> (hd t = CHR ''+'' \<or> hd t = CHR ''-'') then tl t else t)
      in if prefix ''Infinity'' u then (if neg then NegInf else PosInf)
         else (case strUnsignedDecimalLiteral u of
                 None \<Rightarrow> NaN
               | Some v \<Rightarrow> rnd (if neg then - v else v)))"

subsection \<open>toFixed\<close>

text \<open>The decimal digits of a natural number.\<close>

fun digitsOf :: "nat \<Rightarrow> string" where
  "digitsOf n =
     (if n < 10 then [char_of (48 + n)]
      else digitsOf (n div 10) @ [char_of (48 + n mod 10)])"

declare digitsOf.simps [simp del]

text \<open>The integer nearest to \<open>x \<ge> 0\<close>, the larger one of two.\<close>

definition roundHalfUp :: "rat \<Rightarrow> nat" where
  "roundHalfUp x = nat \<lfloor>x + 1 / 2\<rfloor>"

definition dropTrailingZeros :: "string \<Rightarrow> string" where
  "dropTrailingZeros ds = rev (dropWhile (\<lambda>c. c = CHR ''0'') (rev ds))"

text \<open>
  \<open>Number::toString\<close> of ECMAScript on a finite \<open>x \<ge> 10\<^sup>2\<^sup>1\<close>: the exponential
  form \<open>d.ddde+n\<close> (\<open>de+n\<close> for a single digit). Such a binary64 value is an integer.
  The digits here are those of the exact value with its trailing zeros dropped; the
  language takes the shortest digits that read back as the same binary64 value, which
  are these whenever they are at most 15.
\<close>

definition numberToStringLarge :: "rat \<Rightarrow> string" where
  "numberToStringLarge x =
     (let ds = digitsOf (nat \<lfloor>x\<rfloor>);
          s = dropTrailingZeros ds;
          e = ''e+'' @ digitsOf (length ds - 1)
      in if length s = 1 then s @ e else [hd s] @ ''.'' @ tl s @ e)"

text \<open>
  \<open>Number.prototype.toFixed(f)\<close>, step by step as ECMAScript gives it: a value that is
  not finite prints as its name; the sign is split off; a value of at least \<open>10\<^sup>2\<^sup>1\<close>
  prints as \<open>Number::toString\<close> prints it; any other value is rounded to \<open>f\<close>
  decimals (the nearest, the larger of two), padded with zeros to \<open>f + 1\<close> digits, and the
  point set before the last \<open>f\<close> digits (\<open>fixedDigits\<close>).
\<close>

definition fixedDigits :: "nat \<Rightarrow> rat \<Rightarrow> string" where
  "fixedDigits f x =
     (let n = roundHalfUp (x * 10 ^ f);
          m0 = (if n = 0 then ''0'' else digitsOf n)
      in if f \<noteq> 0 then
           (let m1 = (if length m0 \<le> f
                      then replicate (f + 1 - length m0) CHR ''0'' @ m0
                      else m0);
                k = length m1
            in take (k - f) m1 @ ''.'' @ drop (k - f) m1)
         else m0)"

definition toFixed :: "nat \<Rightarrow> number \<Rightarrow> string" where
  "toFixed f v =
     (case v of
        NaN \<Rightarrow> ''NaN''
      | PosInf \<Rightarrow> ''Infinity''
      | NegInf \<Rightarrow> ''-Infinity''
      | Finite x0 \<Rightarrow>
          (let s = (if x0 < 0 then ''-'' else []);
               x = (if x0 < 0 then - x0 else x0);
               m = (if 10 ^ 21 \<le> x then numberToStringLarge x else fixedDigits f x)
           in s @ m))"

subsection \<open>formatCurrency\<close>

text \<open>
  \<open>formatCurrency\<close> is \<open>value.toLocaleString('de-DE', { style: 'currency', currency:
  'EUR' })\<close>. The locale data are the platform's; for de-DE and EUR they give: two
  decimals (rounded to the nearest, half away from zero), groups of three digits
  separated by a full stop, a decimal comma, a minus sign before a negative value, and
  after the number a no-break space and the euro sign (UTF-8 bytes here). The amount is
  rounded here from the exact value held; the platform rounds the shortest decimal form
  that reads back as the binary64 value, which gives another last digit only for a value
  that binary64 holds just beside half a cent (1.005), and it prints the minus sign of
  a negative zero, which the model does not have.
\<close>

fun group3 :: "string \<Rightarrow> string" where
  "group3 ds =
     (if length ds \<le> 3 then ds
      else group3 (take (length ds - 3) ds) @ ''.'' @ drop (length ds - 3) ds)"

declare group3.simps [simp del]

definition euroSuffix :: string where
  "euroSuffix = [CHR 0xC2, CHR 0xA0, CHR 0xE2, CHR 0x82, CHR 0xAC]"

definition infinitySign :: string where
  "infinitySign = [CHR 0xE2, CHR 0x88, CHR 0x9E]"

definition formatCurrency :: "number \<Rightarrow> string" where
  "formatCurrency v =
     (case v of
        NaN \<Rightarrow> ''NaN'' @ euroSuffix
      | PosInf \<Rightarrow> infinitySign @ euroSuffix
      | NegInf \<Rightarrow> ''-'' @ infinitySign @ euroSuffix
      | Finite x \<Rightarrow>
          (let n = roundHalfUp (\<bar>x\<bar> * 100);
               cents = digitsOf (n mod 100)
           in (if x < 0 then ''-'' else []) @ group3 (digitsOf (n div 100)) @ '','' @
              (if length cents < 2 then ''0'' @ cents else cents) @ euroSuffix))"

subsection \<open>Derived values: the totals\<close>

text \<open>
  \<open>totalHours\<close> and \<open>totalAmount\<close> are \<open>useMemo\<close> values keyed on \<open>services\<close>: functions
  of the list of entries. \<open>reduce\<close> runs from the left, starting at 0.
\<close>

definition totalHours :: "(rat \<Rightarrow> number) \<Rightarrow> ServiceEntry list \<Rightarrow> number" where
  "totalHours rnd svcs =
     foldl (\<lambda>acc service.
              let h = parseFloat rnd (hours service)
              in if isFinite h then jsAdd rnd acc h else acc)
       (Finite 0) svcs"

definition totalAmount :: "(rat \<Rightarrow> number) \<Rightarrow> ServiceEntry list \<Rightarrow> number" where
  "totalAmount rnd svcs =
     foldl (\<lambda>acc service.
              let r = parseFloat rnd (rate service)
              in if isFinite r then jsAdd rnd acc r else acc)
       (Finite 0) svcs"

text \<open>
  The sum of the values of a list of strings that parse as finite numbers, taken alone:
  the strings that do not parse are dropped first, and the rest added up from the left.
\<close>

definition sumOfParseable :: "(rat \<Rightarrow> number) \<Rightarrow> string list \<Rightarrow> number" where
  "sumOfParseable rnd strs =
     foldl (jsAdd rnd) (Finite 0) (filter isFinite (map (parseFloat rnd) strs))"

section \<open>The document of handleExportPdf\<close>

text \<open>
  The jsPDF document is the list of the calls made on it, in order; every call is
  taken to succeed. Lengths are in millimetres. What the platform supplies is a
  parameter: the rounding of the engine's numbers, the page width that jsPDF reports
  for A4 portrait, and jsPDF's \<open>splitTextToSize\<close>, which wraps a text to a width under
  the current font.
\<close>

datatype PdfOp =
    SetFont string string
  | SetFontSize rat
  | Text string rat rat
  | TextCentered string rat rat
  | TextLines "string list" rat rat
  | SetFillColor nat nat nat
  | Rect rat rat rat rat string
  | Line rat rat rat rat
  | AddImage string string rat rat rat rat
  | Save string

record Lib =
  round64 :: "rat \<Rightarrow> number"
  pageWidth :: rat
  splitTextToSize :: "string \<Rightarrow> rat \<Rightarrow> string list"

definition marginX :: rat where
  "marginX = 20"

text \<open>
  Each part of \<open>handleExportPdf\<close> takes the calls made so far and the value of
  \<open>cursorY\<close>, and returns both as the part leaves them. The title starts the document
  with \<open>cursorY = 25\<close>.
\<close>

definition renderTitle :: "Lib \<Rightarrow> PdfOp list \<times> rat" where
  "renderTitle lib =
     ([SetFont ''helvetica'' ''bold'',
       SetFontSize 20,
       TextCentered ''Leistungsnachweis'' (pageWidth lib / 2) 25],
      25 + 14)"

definition technicianBlockHeight :: "AppState \<Rightarrow> rat" where
  "technicianBlockHeight st = (of_nat (length (technicianLines st)) + 1) * 6"

definition customerBlockHeight :: "AppState \<Rightarrow> rat" where
  "customerBlockHeight st = (of_nat (length (customerLines st)) + 1) * 6"

fun renderHeaderBlocks :: "Lib \<Rightarrow> AppState \<Rightarrow> PdfOp list \<times> rat \<Rightarrow> PdfOp list \<times> rat" where
  "renderHeaderBlocks lib st (ops, cursorY) =
     (ops @
      [SetFontSize 11,
       Text ''Techniker:'' marginX cursorY,
       SetFont ''helvetica'' ''normal'',
       TextLines (technicianLines st) marginX (cursorY + 6),
       SetFont ''helvetica'' ''bold'',
       Text ''Kunde:'' (pageWidth lib / 2 + 5) cursorY,
       SetFont ''helvetica'' ''normal'',
       TextLines (customerLines st) (pageWidth lib / 2 + 5) (cursorY + 6)],
      cursorY + max (technicianBlockHeight st) (customerBlockHeight st) + 4)"

definition summaryLines :: "AppState \<Rightarrow> string list" where
  "summaryLines st =
     [''Auftragsnummer: '' @ or_else (orderNumber (order st)) ''-'',
      trim (''Zeitraum: '' @ or_else (month (order st)) ''-'' @ '' '' @
            or_else (year (order st)) []),
      ''Zahlungsart: '' @ paymentMethod st]"

fun renderSummary :: "AppState \<Rightarrow> PdfOp list \<times> rat \<Rightarrow> PdfOp list \<times> rat" where
  "renderSummary st (ops, cursorY) =
     (case foldl (\<lambda>(ops', y) line. (ops' @ [Text line marginX y], y + 6))
             (ops @ [SetFont ''helvetica'' ''normal''], cursorY) (summaryLines st) of
        (ops', y) \<Rightarrow> (ops', y + 6))"

definition tableWidth :: "Lib \<Rightarrow> rat" where
  "tableWidth lib = pageWidth lib - marginX * 2"

definition dateWidth :: rat where
  "dateWidth = 35"

definition hoursWidth :: rat where
  "hoursWidth = 30"

definition priceWidth :: rat where
  "priceWidth = 35"

definition descWidth :: "Lib \<Rightarrow> rat" where
  "descWidth lib = tableWidth lib - dateWidth - hoursWidth - priceWidth"

definition headerHeight :: rat where
  "headerHeight = 8"

fun renderTableHeader :: "Lib \<Rightarrow> PdfOp list \<times> rat \<Rightarrow> PdfOp list \<times> rat" where
  "renderTableHeader lib (ops, cursorY) =
     (ops @
      [SetFillColor 240 240 240,
       Rect marginX cursorY (tableWidth lib) headerHeight ''F'',
       SetFont ''helvetica'' ''bold'',
       Text ''Datum'' (marginX + 3) (cursorY + 6),
       Text ''Beschreibung'' (marginX + dateWidth + 3) (cursorY + 6),
       Text ''Stunden'' (marginX + dateWidth + descWidth lib + 3) (cursorY + 6),
       Text ''Preis'' (marginX + dateWidth + descWidth lib + hoursWidth + 3) (cursorY + 6),
       SetFont ''helvetica'' ''normal''],
      cursorY + headerHeight)"

subsection \<open>The rows of the table\<close>

definition dateText :: "ServiceEntry \<Rightarrow> string" where
  "dateText service = or_else (date service) ''-''"

definition hoursText :: "(rat \<Rightarrow> number) \<Rightarrow> ServiceEntry \<Rightarrow> string" where
  "hoursText rnd service =
     (let hoursValue = parseFloat rnd (hours service)
      in if isFinite hoursValue then toFixed 2 hoursValue else ''-'')"

definition rateText :: "(rat \<Rightarrow> number) \<Rightarrow> ServiceEntry \<Rightarrow> string" where
  "rateText rnd service =
     (let rateValue = parseFloat rnd (rate service)
      in if isFinite rateValue then formatCurrency rateValue else ''-'')"

definition descLines :: "Lib \<Rightarrow> ServiceEntry \<Rightarrow> string list" where
  "descLines lib service =
     splitTextToSize lib (or_else (description service) ''-'') (descWidth lib - 6)"

definition rowHeight :: "Lib \<Rightarrow> ServiceEntry \<Rightarrow> rat" where
  "rowHeight lib service = max (of_nat (length (descLines lib service)) * 6) 8"

text \<open>The body of \<open>services.forEach\<close>, and the loop.\<close>

fun renderRow :: "Lib \<Rightarrow> PdfOp list \<times> rat \<Rightarrow> ServiceEntry \<Rightarrow> PdfOp list \<times> rat" where
  "renderRow lib (ops, cursorY) service =
     (ops @
      [Text (dateText service) (marginX + 3) (cursorY + 5),
       TextLines (descLines lib service) (marginX + dateWidth + 3) (cursorY + 5),
       Text (hoursText (round64 lib) service)
         (marginX + dateWidth + descWidth lib + 3) (cursorY + 5),
       Text (rateText (round64 lib) service)
         (marginX + dateWidth + descWidth lib + hoursWidth + 3) (cursorY + 5),
       Line marginX (cursorY + rowHeight lib service)
         (marginX + tableWidth lib) (cursorY + rowHeight lib service)],
      cursorY + rowHeight lib service)"

definition renderRows ::
  "Lib \<Rightarrow> ServiceEntry list \<Rightarrow> PdfOp list \<times> rat \<Rightarrow> PdfOp list \<times> rat" where
  "renderRows lib svcs page = foldl (renderRow lib) page svcs"

subsection \<open>Totals and signatures\<close>

fun renderTotals :: "Lib \<Rightarrow> AppState \<Rightarrow> PdfOp list \<times> rat \<Rightarrow> PdfOp list \<times> rat" where
  "renderTotals lib st (ops, cursorY) =
     (ops @
      [Text (''Gesamtstunden: '' @ toFixed 2 (totalHours (round64 lib) (services st)))
         marginX (cursorY + 8),
       Text (''Gesamtpreis: '' @ formatCurrency (totalAmount (round64 lib) (services st)))
         marginX (cursorY + 8 + 6)],
      cursorY + 8 + 6)"

definition signatureWidth :: rat where
  "signatureWidth = 60"

definition signatureHeight :: rat where
  "signatureHeight = 23"

text \<open>A signature is truthy when it is a string that is not empty.\<close>

definition signatureOps :: "string option \<Rightarrow> rat \<Rightarrow> rat \<Rightarrow> PdfOp list" where
  "signatureOps sig x y =
     (case sig of
        None \<Rightarrow> []
      | Some url \<Rightarrow>
          if url \<noteq> [] then [AddImage url ''PNG'' x y signatureWidth signatureHeight] else [])"

fun renderSignatures :: "Lib \<Rightarrow> AppState \<Rightarrow> PdfOp list \<times> rat \<Rightarrow> PdfOp list \<times> rat" where
  "renderSignatures lib st (ops, cursorY0) =
     (let cursorY = cursorY0 + 20
      in (ops @
          signatureOps (technicianSignature st) marginX (cursorY - signatureHeight) @
          signatureOps (customerSignature st)
            (pageWidth lib - marginX - signatureWidth) (cursorY - signatureHeight) @
          [Line marginX cursorY (marginX + signatureWidth + 20) cursorY,
           Line (pageWidth lib - marginX - signatureWidth - 20) cursorY
             (pageWidth lib - marginX) cursorY,
           Text ''Datum, Unterschrift Techniker'' marginX (cursorY + 6),
           Text ''Datum, Unterschrift Kunde''
             (pageWidth lib - marginX - signatureWidth - 10) (cursorY + 6),
           Save ''leistungsnachweis.pdf''],
          cursorY))"

subsection \<open>The export\<close>

definition renderPdf :: "Lib \<Rightarrow> AppState \<Rightarrow> PdfOp list" where
  "renderPdf lib st =
     fst (renderSignatures lib st
           (renderTotals lib st
             (renderRows lib (services st)
               (renderTableHeader lib
                 (renderSummary st
                   (renderHeaderBlocks lib st
                     (renderTitle lib)))))))"

text \<open>
  \<open>handleExportPdf\<close> returns the state it leaves and the document it saved, if any. With
  an empty \<open>order.company\<close> it sets \<open>companyTouched\<close> and returns before a document is
  made.
\<close>

definition handleExportPdf :: "Lib \<Rightarrow> AppState \<Rightarrow> AppState \<times> PdfOp list option" where
  "handleExportPdf lib st =
     (if company (order st) = [] then (st\<lparr>companyTouched := True\<rparr>, None)
      else (st, Some (renderPdf lib st)))"

subsection \<open>The rows in closed form\<close>

text \<open>
  The calls of one row whose top is at \<open>y\<close>, and the calls of a list of rows laid out
  one below the other from \<open>y\<close> on. They restate the row loop without the accumulator
  and are related to \<open>renderRows\<close> by \<open>renderRows_closed\<close>.
\<close>

definition rowOps :: "Lib \<Rightarrow> ServiceEntry \<Rightarrow> rat \<Rightarrow> PdfOp list" where
  "rowOps lib service y = fst (renderRow lib ([], y) service)"

fun rowsOps :: "Lib \<Rightarrow> ServiceEntry list \<Rightarrow> rat \<Rightarrow> PdfOp list" where
  "rowsOps lib [] y = []"
| "rowsOps lib (service # svcs) y =
     rowOps lib service y @ rowsOps lib svcs (y + rowHeight lib service)"

section \<open>The signature pad of SignaturePad.tsx\<close>

subsection \<open>The canvas\<close>

text \<open>
  The raster buffer of the canvas is \<open>width \<times> height\<close> device pixels, each holding a
  colour; a canvas that has just been sized is transparent. A drawing call paints the
  pixels whose centres its shape covers (no blending at the edges). The 2D context
  holds the current transformation, here always a uniform scale \<open>scale\<close> as
  \<open>setTransform(ratio, 0, 0, ratio, 0, 0)\<close> sets it, the line width, the stroke and fill
  styles and the current path (a list of subpaths, each a list of points in device
  space); line caps and joins are the round ones that
  \<open>resizeCanvas\<close> sets. The coordinates of \<open>clearRect\<close>, \<open>fillRect\<close>, \<open>moveTo\<close> and
  \<open>lineTo\<close> are in user space: the current transformation maps them to device pixels.
\<close>

datatype colour = Transparent | Css string

record Canvas =
  width :: nat
  height :: nat
  scale :: rat
  lineWidth :: rat
  strokeStyle :: string
  fillStyle :: string
  path :: "(rat \<times> rat) list list"
  bitmap :: "nat \<times> nat \<Rightarrow> colour"

definition centre :: "nat \<times> nat \<Rightarrow> rat \<times> rat" where
  "centre px = (of_nat (fst px) + 1 / 2, of_nat (snd px) + 1 / 2)"

text \<open>
  Whether the centre of a pixel lies in the rectangle \<open>(x, y, w, h)\<close> of user space
  under the scale \<open>r\<close>; width and height are not negative wherever the component
  calls.
\<close>

definition inRect :: "rat \<Rightarrow> rat \<Rightarrow> rat \<Rightarrow> rat \<Rightarrow> rat \<Rightarrow> nat \<times> nat \<Rightarrow> bool" where
  "inRect r x y w h px =
     (x * r \<le> fst (centre px) \<and> fst (centre px) \<le> (x + w) * r \<and>
      y * r \<le> snd (centre px) \<and> snd (centre px) \<le> (y + h) * r)"

definition clearRect :: "Canvas \<Rightarrow> rat \<Rightarrow> rat \<Rightarrow> rat \<Rightarrow> rat \<Rightarrow> Canvas" where
  "clearRect c x y w h =
     c\<lparr>bitmap := (\<lambda>px. if inRect (scale c) x y w h px then Transparent else bitmap c px)\<rparr>"

definition fillRect :: "Canvas \<Rightarrow> rat \<Rightarrow> rat \<Rightarrow> rat \<Rightarrow> rat \<Rightarrow> Canvas" where
  "fillRect c x y w h =
     c\<lparr>bitmap := (\<lambda>px. if inRect (scale c) x y w h px then Css (fillStyle c)
                        else bitmap c px)\<rparr>"

text \<open>
  The square of the distance from a point to a segment. With round caps and joins the
  stroke of a path covers the points within half the line width of one of its segments.
\<close>

definition distSq :: "rat \<times> rat \<Rightarrow> rat \<times> rat \<Rightarrow> rat \<times> rat \<Rightarrow> rat" where
  "distSq p a b =
     (let dx = fst b - fst a;
          dy = snd b - snd a;
          len = dx * dx + dy * dy;
          t = (if len = 0 then 0
               else max 0 (min 1 (((fst p - fst a) * dx + (snd p - snd a) * dy) / len)));
          qx = fst a + t * dx;
          qy = snd a + t * dy
      in (fst p - qx) * (fst p - qx) + (snd p - qy) * (snd p - qy))"

definition segments :: "(rat \<times> rat) list list \<Rightarrow> ((rat \<times> rat) \<times> (rat \<times> rat)) list" where
  "segments subpaths = concat (map (\<lambda>pts. zip pts (tl pts)) subpaths)"

definition stroke :: "Canvas \<Rightarrow> Canvas" where
  "stroke c =
     c\<lparr>bitmap :=
         (\<lambda>px. if list_ex (\<lambda>(a, b). distSq (centre px) a b
                                    \<le> (lineWidth c * scale c / 2) * (lineWidth c * scale c / 2))
                     (segments (path c))
               then Css (strokeStyle c) else bitmap c px)\<rparr>"

text \<open>
  \<open>moveTo\<close> starts a new subpath at the point; \<open>lineTo\<close> adds the point to the last
  subpath, or starts one when the path is empty.
\<close>

definition moveTo :: "Canvas \<Rightarrow> rat \<Rightarrow> rat \<Rightarrow> Canvas" where
  "moveTo c x y = c\<lparr>path := path c @ [[(x * scale c, y * scale c)]]\<rparr>"

definition lineTo :: "Canvas \<Rightarrow> rat \<Rightarrow> rat \<Rightarrow> Canvas" where
  "lineTo c x y =
     c\<lparr>path := (if path c = [] then [[(x * scale c, y * scale c)]]
                 else butlast (path c) @ [last (path c) @ [(x * scale c, y * scale c)]])\<rparr>"

definition beginPath :: "Canvas \<Rightarrow> Canvas" where
  "beginPath c = c\<lparr>path := []\<rparr>"

text \<open>
  Setting \<open>canvas.width\<close> or \<open>canvas.height\<close> clears the raster to transparent and
  resets the context to its defaults.
\<close>

definition sizedCanvas :: "nat \<Rightarrow> nat \<Rightarrow> Canvas" where
  "sizedCanvas w h =
     \<lparr>width = w, height = h, scale = 1, lineWidth = 1, strokeStyle = ''#000000'',
      fillStyle = ''#000000'', path = [], bitmap = (\<lambda>px. Transparent)\<rparr>"

text \<open>
  A raster is blank in the colour \<open>bg\<close> when every one of its pixels holds \<open>bg\<close>.
\<close>

definition isBlank :: "string \<Rightarrow> Canvas \<Rightarrow> bool" where
  "isBlank bg c =
     list_all (\<lambda>i. list_all (\<lambda>j. bitmap c (i, j) = Css bg) [0..<height c]) [0..<width c]"

subsection \<open>The component\<close>

text \<open>
  The theme gives the values of the CSS variables \<open>--card-bg\<close> and \<open>--text-primary\<close>,
  trimmed, as \<open>getCssVar\<close> reads them.
\<close>

record Theme =
  cardBg :: string
  textPrimary :: string

definition getBackgroundColor :: "Theme \<Rightarrow> string" where
  "getBackgroundColor theme = or_else (cardBg theme) ''#ffffff''"

definition getStrokeColor :: "Theme \<Rightarrow> string" where
  "getStrokeColor theme = or_else (textPrimary theme) ''#0f172a''"

text \<open>
  The state of one pad: \<open>canvasRef.current\<close> (\<open>None\<close> for null), the ref \<open>drawing\<close>, and
  \<open>lastX\<close>, \<open>lastY\<close>. The canvas has its 2D context, and its parent element exists.
\<close>

record Pad =
  canvas :: "Canvas option"
  drawing :: bool
  lastX :: rat
  lastY :: rat

text \<open>
  \<open>resizeCanvas\<close>, given the size of the parent's bounding rectangle in CSS pixels and
  \<open>window.devicePixelRatio\<close>. The canvas takes the size in device pixels, cut to whole
  numbers.
\<close>

definition resizeCanvas :: "Theme \<Rightarrow> rat \<Rightarrow> rat \<Rightarrow> rat \<Rightarrow> Canvas" where
  "resizeCanvas theme rectWidth rectHeight devicePixelRatio =
     (let ratio = (if devicePixelRatio \<noteq> 0 then devicePixelRatio else 1);
          c0 = sizedCanvas (nat \<lfloor>rectWidth * ratio\<rfloor>) (nat \<lfloor>rectHeight * ratio\<rfloor>);
          c1 = c0\<lparr>scale := ratio, lineWidth := 2, strokeStyle := getStrokeColor theme,
                  fillStyle := getBackgroundColor theme\<rparr>
      in fillRect (clearRect c1 0 0 rectWidth rectHeight) 0 0 rectWidth rectHeight)"

definition resizePad :: "Theme \<Rightarrow> rat \<Rightarrow> rat \<Rightarrow> rat \<Rightarrow> Pad \<Rightarrow> Pad" where
  "resizePad theme rectWidth rectHeight devicePixelRatio pad =
     (case canvas pad of
        None \<Rightarrow> pad
      | Some c \<Rightarrow> pad\<lparr>canvas := Some (resizeCanvas theme rectWidth rectHeight devicePixelRatio)\<rparr>)"

text \<open>The pad once mounted: the canvas exists and the first effect has sized it.\<close>

definition mountedPad :: "Theme \<Rightarrow> rat \<Rightarrow> rat \<Rightarrow> rat \<Rightarrow> Pad" where
  "mountedPad theme rectWidth rectHeight devicePixelRatio =
     \<lparr>canvas = Some (resizeCanvas theme rectWidth rectHeight devicePixelRatio),
      drawing = False, lastX = 0, lastY = 0\<rparr>"

text \<open>
  The pointer handlers; \<open>x\<close> and \<open>y\<close> are the position \<open>getPos\<close> computes, relative to
  the canvas in CSS pixels.
\<close>

definition handlePointerDown :: "Theme \<Rightarrow> rat \<Rightarrow> rat \<Rightarrow> Pad \<Rightarrow> Pad" where
  "handlePointerDown theme x y pad =
     (case canvas pad of
        None \<Rightarrow> pad
      | Some c \<Rightarrow>
          pad\<lparr>drawing := True, lastX := x, lastY := y,
              canvas := Some (moveTo (beginPath (c\<lparr>strokeStyle := getStrokeColor theme\<rparr>)) x y)\<rparr>)"

definition handlePointerMove :: "Theme \<Rightarrow> rat \<Rightarrow> rat \<Rightarrow> Pad \<Rightarrow> Pad" where
  "handlePointerMove theme x y pad =
     (if \<not> drawing pad then pad
      else
        (case canvas pad of
           None \<Rightarrow> pad
         | Some c \<Rightarrow>
             pad\<lparr>canvas := Some (stroke (lineTo (c\<lparr>strokeStyle := getStrokeColor theme\<rparr>) x y)),
                 lastX := x, lastY := y\<rparr>))"

text \<open>
  A handler that may call \<open>onChange\<close> returns, beside the pad, the call it made: \<open>None\<close>
  for no call, \<open>Some v\<close> for \<open>onChange(v)\<close>, where \<open>v\<close> is a data URL or null. \<open>toDataURL\<close>
  is the browser's PNG encoding of the raster; \<open>hasOnChange\<close> tells whether the
  optional prop \<open>onChange\<close> was given.
\<close>

definition emitChange :: "(Canvas \<Rightarrow> string) \<Rightarrow> bool \<Rightarrow> Pad \<Rightarrow> string option option" where
  "emitChange toDataURL hasOnChange pad =
     (case canvas pad of
        None \<Rightarrow> None
      | Some c \<Rightarrow> if \<not> hasOnChange then None else Some (Some (toDataURL c)))"

text \<open>\<open>stopDrawing\<close> handles \<open>pointerup\<close>, \<open>pointerleave\<close> and \<open>pointercancel\<close>.\<close>

definition stopDrawing ::
  "(Canvas \<Rightarrow> string) \<Rightarrow> bool \<Rightarrow> Pad \<Rightarrow> Pad \<times> string option option" where
  "stopDrawing toDataURL hasOnChange pad =
     (pad\<lparr>drawing := False\<rparr>, emitChange toDataURL hasOnChange (pad\<lparr>drawing := False\<rparr>))"

definition handleClear :: "Theme \<Rightarrow> bool \<Rightarrow> Pad \<Rightarrow> Pad \<times> string option option" where
  "handleClear theme hasOnChange pad =
     (case canvas pad of
        None \<Rightarrow> (pad, None)
      | Some c \<Rightarrow>
          (pad\<lparr>canvas :=
                 Some (fillRect
                         ((clearRect c 0 0 (of_nat (width c)) (of_nat (height c)))
                            \<lparr>fillStyle := getBackgroundColor theme\<rparr>)
                         0 0 (of_nat (width c)) (of_nat (height c)))\<rparr>,
           if hasOnChange then Some None else None))"

subsection \<open>The wiring in App\<close>

text \<open>
  The two pads are given \<open>onChange={setTechnicianSignature}\<close> and
  \<open>onChange={setCustomerSignature}\<close>: a call of \<open>onChange\<close> stores its argument.
\<close>

definition storeTechnicianSignature :: "string option option \<Rightarrow> AppState \<Rightarrow> AppState" where
  "storeTechnicianSignature call st =
     (case call of None \<Rightarrow> st | Some v \<Rightarrow> st\<lparr>technicianSignature := v\<rparr>)"

definition storeCustomerSignature :: "string option option \<Rightarrow> AppState \<Rightarrow> AppState" where
  "storeCustomerSignature call st =
     (case call of None \<Rightarrow> st | Some v \<Rightarrow> st\<lparr>customerSignature := v\<rparr>)"

section \<open>The form as a state machine\<close>

text \<open>
  What a user can do to the form: every handler that the rendered elements are bound
  to. \<open>AddService\<close> carries the id that \<open>crypto.randomUUID()\<close> draws for the new entry.
\<close>

datatype Action =
    CustomerChange CustomerKey string
  | OrderChange OrderKey string
  | ServiceChange string ServiceKey string
  | AddService string
  | RemoveService string
  | ExportPdf
  | AddSecondTechnician
  | RemoveSecondTechnician
  | SetPaymentMethod string
  | CompanyBlur
  | SetTechnicianSignature "string option"
  | SetCustomerSignature "string option"

fun step :: "Lib \<Rightarrow> AppState \<Rightarrow> Action \<Rightarrow> AppState" where
  "step lib st (CustomerChange field v) = handleCustomerChange field v st"
| "step lib st (OrderChange field v) = handleOrderChange field v st"
| "step lib st (ServiceChange i field v) = handleServiceChange i field v st"
| "step lib st (AddService uuid) = addService uuid st"
| "step lib st (RemoveService i) = removeService i st"
| "step lib st ExportPdf = fst (handleExportPdf lib st)"
| "step lib st AddSecondTechnician = handleAddSecondTechnician st"
| "step lib st RemoveSecondTechnician = handleRemoveSecondTechnician st"
| "step lib st (SetPaymentMethod option) = st\<lparr>paymentMethod := option\<rparr>"
| "step lib st CompanyBlur = st\<lparr>companyTouched := True\<rparr>"
| "step lib st (SetTechnicianSignature sig) = st\<lparr>technicianSignature := sig\<rparr>"
| "step lib st (SetCustomerSignature sig) = st\<lparr>customerSignature := sig\<rparr>"

definition run :: "Lib \<Rightarrow> AppState \<Rightarrow> Action list \<Rightarrow> AppState" where
  "run lib st acts = foldl (step lib) st acts"

text \<open>
  \<open>crypto.randomUUID()\<close> draws an id that no entry of the list has. \<open>freshIds\<close> holds of
  a sequence of actions from a state when every \<open>AddService\<close> in it carries such an id.
\<close>

fun isFresh :: "AppState \<Rightarrow> Action \<Rightarrow> bool" where
  "isFresh st (AddService uuid) = (uuid \<notin> set (map id' (services st)))"
| "isFresh st a = True"

fun freshIds :: "Lib \<Rightarrow> AppState \<Rightarrow> Action list \<Rightarrow> bool" where
  "freshIds lib st [] = True"
| "freshIds lib st (a # acts) = (isFresh st a \<and> freshIds lib (step lib st a) acts)"

text \<open>The list of service entries is not empty and no two entries share an id.\<close>

definition servicesOk :: "AppState \<Rightarrow> bool" where
  "servicesOk st = (1 \<le> length (services st) \<and> distinct (map id' (services st)))"

subsection \<open>A platform and a form for the examples\<close>

text \<open>
  The examples are evaluated on a platform that rounds nothing, reports a page width of
  210 and leaves every text on one line, and on the form as it is first shown with the
  company \<open>alsleben\<close> chosen.
\<close>

definition exampleLib :: Lib where
  "exampleLib = \<lparr>round64 = Finite, pageWidth = 210, splitTextToSize = (\<lambda>text w. [text])\<rparr>"

definition exampleState :: AppState where
  "exampleState = handleOrderChange K_company ''alsleben'' (initialState ''2025'' ''id-1'')"

subsection \<open>The shapes of the printed numbers\<close>

text \<open>
  \<open>isFixed2\<close> holds of a string with exactly two decimals: an optional minus sign, at
  least one digit, a point and two digits. \<open>isEuroAmount\<close> holds of a de-DE euro amount:
  an optional minus sign, digits in groups of three separated by full stops (the first
  group of one to three digits; read from the right by \<open>isGroupedRev\<close>), a comma, two
  digits, and the no-break space and euro sign.
\<close>

definition isFixed2 :: "string \<Rightarrow> bool" where
  "isFixed2 s =
     (let u = (if s \<noteq> [] \<and> hd s = CHR ''-'' then tl s else s)
      in takeWhile isDigit u \<noteq> [] \<and>
         (case dropWhile isDigit u of
            [p, a, b] \<Rightarrow> p = CHR ''.'' \<and> isDigit a \<and> isDigit b
          | _ \<Rightarrow> False))"

fun isGroupedRev :: "string \<Rightarrow> bool" where
  "isGroupedRev (a # b # c # p # r) =
     (isDigit a \<and> isDigit b \<and> isDigit c \<and> p = CHR ''.'' \<and> isGroupedRev r)"
| "isGroupedRev [a, b, c] = (isDigit a \<and> isDigit b \<and> isDigit c)"
| "isGroupedRev [a, b] = (isDigit a \<and> isDigit b)"
| "isGroupedRev [a] = isDigit a"
| "isGroupedRev [] = False"

definition isEuroAmount :: "string \<Rightarrow> bool" where
  "isEuroAmount s =
     (let u = (if s \<noteq> [] \<and> hd s = CHR ''-'' then tl s else s)
      in isGroupedRev (rev (takeWhile (\<lambda>c. c \<noteq> CHR '','') u)) \<and>
         (case dropWhile (\<lambda>c. c \<noteq> CHR '','') u of
            p # a # b # rest \<Rightarrow> isDigit a \<and> isDigit b \<and> rest = euroSuffix
          | _ \<Rightarrow> False))"

text \<open>
  For the pad: a theme that sets neither variable, so that the fallback colours apply;
  an encoder that gives every raster the same data URL; and a pad in a parent of 400 by
  200 CSS pixels at a device pixel ratio of 1/2 (a page zoomed out to 50%), on which a
  stroke has been drawn from (300, 150) to (310, 160).
\<close>

definition exampleTheme :: Theme where
  "exampleTheme = \<lparr>cardBg = [], textPrimary = []\<rparr>"

definition exampleEncoder :: "Canvas \<Rightarrow> string" where
  "exampleEncoder c = ''data:image/png;base64,''"

definition strokeAtLowRatio :: Pad where
  "strokeAtLowRatio =
     handlePointerMove exampleTheme 310 160
       (handlePointerDown exampleTheme 300 150
         (mountedPad exampleTheme 400 200 (1 / 2)))"

text \<open>What a string adds to an exact sum: its value when it parses as a finite number, else 0.\<close>

definition contribution :: "(rat \<Rightarrow> number) \<Rightarrow> string \<Rightarrow> rat" where
  "contribution rnd str = (case parseFloat rnd str of Finite x \<Rightarrow> x | _ \<Rightarrow> 0)"

section \<open>Properties\<close>

text \<open>
  Claim C9. Removing the second technician field clears its value: afterwards
  \<open>order.technicianTwo\<close> is the empty string and the field is no longer shown, while
  orderNumber, technician, month, year and company are unchanged (and so is everything
  of the state outside the order and the flag).
\<close>

theorem remove_second_technician_frame:
  "technicianTwo (order (handleRemoveSecondTechnician st)) = [] \<and>
   showSecondTechnician (handleRemoveSecondTechnician st) = False \<and>
   orderNumber (order (handleRemoveSecondTechnician st)) = orderNumber (order st) \<and>
   technician (order (handleRemoveSecondTechnician st)) = technician (order st) \<and>
   month (order (handleRemoveSecondTechnician st)) = month (order st) \<and>
   year (order (handleRemoveSecondTechnician st)) = year (order st) \<and>
   company (order (handleRemoveSecondTechnician st)) = company (order st) \<and>
   handleRemoveSecondTechnician st =
     st\<lparr>order := (order st)\<lparr>technicianTwo := []\<rparr>, showSecondTechnician := False\<rparr>"
  by (simp add: handleRemoveSecondTechnician_def handleOrderChange_def)

subsection \<open>White space\<close>

text \<open>A string that starts with none of the white-space sequences has none to strip.\<close>

lemma skipAny_none:
  "find (\<lambda>w. w \<noteq> [] \<and> prefix w s) ws = None \<Longrightarrow> skipAny ws s = s"
  by (simp add: skipAny.simps [of ws s])

lemma trimStart_empty: "trimStart [] = []"
  by (simp add: trimStart_def skipAny_none whiteSpaceChars_def)

lemma trimStart_examples:
  "trimStart ''2'' = ''2''" "trimStart ''10.50'' = ''10.50''" "trimStart ''abc'' = ''abc''"
  "trimStart ''1e21'' = ''1e21''"
  by (simp_all add: trimStart_def skipAny_none whiteSpaceChars_def)

lemma skipAny_step:
  "find (\<lambda>w. w \<noteq> [] \<and> prefix w s) ws = Some w \<Longrightarrow>
   skipAny ws s = skipAny ws (drop (length w) s)"
  by (simp add: skipAny.simps [of ws s])

text \<open>
  A no-break space before the digits is skipped like a space, and \<open>trim\<close> strips
  white space at both ends.
\<close>

lemma parseFloat_no_break_space:
  "parseFloat rnd ([CHR 0xC2, CHR 0xA0] @ ''8'') = rnd 8"
proof -
  have "trimStart ([CHR 0xC2, CHR 0xA0] @ ''8'') = trimStart ''8''"
    unfolding trimStart_def
    by (subst skipAny_step [where w = "[CHR 0xC2, CHR 0xA0]"])
      (simp_all add: whiteSpaceChars_def)
  also have "\<dots> = ''8''"
    by (simp add: trimStart_def skipAny_none whiteSpaceChars_def)
  finally show ?thesis
    by (simp add: parseFloat_def strUnsignedDecimalLiteral_def isDigit_def digitsValue_def
        exponentPart_def scale10_def)
qed

lemma trim_example: "trim '' 2025 '' = ''2025''"
proof -
  have 1: "trimStart '' 2025 '' = ''2025 ''"
    unfolding trimStart_def
    by (subst skipAny_step [where w = "'' ''"])
      (simp_all add: whiteSpaceChars_def skipAny_none)
  have 2: "trimEnd ''2025 '' = ''2025''"
    unfolding trimEnd_def
    by (simp add: skipAny_step [where w = "'' ''"] whiteSpaceChars_def skipAny_none)
  show ?thesis
    by (simp only: trim_def 1 2)
qed

subsection \<open>Totals\<close>

lemma foldl_skip_filter:
  "foldl (\<lambda>acc x. let h = p x in if isFinite h then jsAdd rnd acc h else acc) a xs =
   foldl (jsAdd rnd) a (filter isFinite (map p xs))"
  by (induction xs arbitrary: a) (simp_all add: Let_def)

lemma foldl_exact_sum:
  "foldl (jsAdd Finite) (Finite a) (filter isFinite (map (parseFloat Finite) strs)) =
   Finite (a + sum_list (map (contribution Finite) strs))"
proof (induction strs arbitrary: a)
  case Nil
  show ?case by simp
next
  case (Cons str strs)
  show ?case
    by (cases "parseFloat Finite str") (simp_all add: Cons.IH contribution_def add.assoc)
qed

text \<open>
  Claim C1. For every list of service entries, \<open>totalHours\<close> is the sum of exactly
  those \<open>hours\<close> values that parse as finite numbers, and \<open>totalAmount\<close> the sum of
  exactly those \<open>rate\<close> values that do; an entry whose value does not parse contributes
  nothing, wherever it stands in the list. Both totals are functions of the entry list
  alone. With exact addition the totals are the sums of the contributions, an entry
  that does not parse contributing 0.
\<close>

theorem totals_sum_parseable:
  "totalHours rnd svcs = sumOfParseable rnd (map hours svcs) \<and>
   totalAmount rnd svcs = sumOfParseable rnd (map rate svcs) \<and>
   (\<not> isFinite (parseFloat rnd (hours s)) \<longrightarrow>
      totalHours rnd (xs @ s # ys) = totalHours rnd (xs @ ys)) \<and>
   (\<not> isFinite (parseFloat rnd (rate s)) \<longrightarrow>
      totalAmount rnd (xs @ s # ys) = totalAmount rnd (xs @ ys)) \<and>
   totalHours Finite svcs = Finite (sum_list (map (contribution Finite \<circ> hours) svcs)) \<and>
   totalAmount Finite svcs = Finite (sum_list (map (contribution Finite \<circ> rate) svcs))"
proof -
  have h: "totalHours r l = sumOfParseable r (map hours l)" for r l
    unfolding totalHours_def sumOfParseable_def
    by (simp add: foldl_skip_filter [where p = "\<lambda>x. parseFloat r (hours x)"] comp_def)
  have a: "totalAmount r l = sumOfParseable r (map rate l)" for r l
    unfolding totalAmount_def sumOfParseable_def
    by (simp add: foldl_skip_filter [where p = "\<lambda>x. parseFloat r (rate x)"] comp_def)
  have skip: "\<not> isFinite (parseFloat rnd str) \<Longrightarrow>
      sumOfParseable rnd (l1 @ str # l2) = sumOfParseable rnd (l1 @ l2)" for str l1 l2
    by (simp add: sumOfParseable_def)
  have exact: "sumOfParseable Finite strs = Finite (sum_list (map (contribution Finite) strs))"
    for strs
    using foldl_exact_sum [of 0 strs] by (simp add: sumOfParseable_def)
  show ?thesis
    using skip [of "hours s" "map hours xs" "map hours ys"]
      skip [of "rate s" "map rate xs" "map rate ys"]
    by (simp add: h a exact comp_def)
qed

theorem totals_sum_parseable_witness:
  "\<not> isFinite (parseFloat Finite (hours (createEmptyService ''b''\<lparr>hours := ''abc''\<rparr>))) \<and>
   \<not> isFinite (parseFloat Finite (rate (createEmptyService ''b''))) \<and>
   totalHours Finite
     [createEmptyService ''a''\<lparr>hours := ''2'', rate := ''10.50''\<rparr>,
      createEmptyService ''b''\<lparr>hours := ''abc''\<rparr>] = Finite 2 \<and>
   totalAmount Finite
     [createEmptyService ''a''\<lparr>hours := ''2'', rate := ''10.50''\<rparr>,
      createEmptyService ''b''\<lparr>hours := ''abc''\<rparr>] = Finite (21 / 2)"
proof -
  have p1: "parseFloat Finite ''2'' = Finite 2"
    by (simp add: parseFloat_def strUnsignedDecimalLiteral_def trimStart_examples
        trimStart_empty isDigit_def
        digitsValue_def exponentPart_def scale10_def)
  have p2: "parseFloat Finite ''10.50'' = Finite (21 / 2)"
    by (simp add: parseFloat_def strUnsignedDecimalLiteral_def trimStart_examples
        trimStart_empty isDigit_def
        digitsValue_def exponentPart_def scale10_def)
  have p3: "parseFloat Finite ''abc'' = NaN"
    by (simp add: parseFloat_def strUnsignedDecimalLiteral_def trimStart_examples
        trimStart_empty isDigit_def)
  have p4: "parseFloat Finite [] = NaN"
    by (simp add: parseFloat_def strUnsignedDecimalLiteral_def trimStart_empty)
  let ?a = "createEmptyService ''a''\<lparr>hours := ''2'', rate := ''10.50''\<rparr>"
  let ?b = "createEmptyService ''b''\<lparr>hours := ''abc''\<rparr>"
  note t = totals_sum_parseable [of Finite "[?a, ?b]" ?b "[?a]" "[]"]
  have th: "totalHours Finite [?a, ?b] =
      Finite (sum_list (map (contribution Finite \<circ> hours) [?a, ?b]))"
    using t by blast
  have ta: "totalAmount Finite [?a, ?b] =
      Finite (sum_list (map (contribution Finite \<circ> rate) [?a, ?b]))"
    using t by blast
  have "totalHours Finite [?a, ?b] = Finite 2"
    unfolding th by (simp add: createEmptyService_def contribution_def p1 p3)
  moreover have "totalAmount Finite [?a, ?b] = Finite (21 / 2)"
    unfolding ta by (simp add: createEmptyService_def contribution_def p2 p4)
  ultimately show ?thesis
    by (simp add: createEmptyService_def p3 p4)
qed

subsection \<open>The document\<close>

lemma renderRow_closed:
  "renderRow lib (ops, y) service = (ops @ rowOps lib service y, y + rowHeight lib service)"
  by (simp add: rowOps_def)

lemma renderRows_closed:
  "renderRows lib svcs (ops, y) =
     (ops @ rowsOps lib svcs y, y + sum_list (map (rowHeight lib) svcs))"
proof (induction svcs arbitrary: ops y)
  case Nil
  show ?case by (simp add: renderRows_def)
next
  case (Cons service svcs)
  have "renderRows lib (service # svcs) (ops, y) =
      renderRows lib svcs (ops @ rowOps lib service y, y + rowHeight lib service)"
    by (simp add: renderRows_def renderRow_closed del: renderRow.simps)
  then show ?case
    by (simp add: Cons.IH add.assoc)
qed

lemma renderRows_snoc:
  "renderRows lib (svcs @ [service]) page = renderRow lib (renderRows lib svcs page) service"
  by (simp add: renderRows_def)

lemma renderSummary_closed:
  "renderSummary st (ops, y) =
     (ops @ [SetFont ''helvetica'' ''normal'',
             Text (summaryLines st ! 0) marginX y,
             Text (summaryLines st ! 1) marginX (y + 6),
             Text (summaryLines st ! 2) marginX (y + 12)],
      y + 24)"
  by (simp add: summaryLines_def)

text \<open>Where the header blocks end: the value of \<open>cursorY\<close> after them.\<close>

lemma renderPdf_closed:
  "renderPdf lib st =
     fst (renderTitle lib) @
     fst (renderHeaderBlocks lib st ([], 39)) @
     fst (renderSummary st ([], snd (renderHeaderBlocks lib st ([], 39)))) @
     fst (renderTableHeader lib ([], snd (renderHeaderBlocks lib st ([], 39)) + 24)) @
     rowsOps lib (services st) (snd (renderHeaderBlocks lib st ([], 39)) + 32) @
     fst (renderSignatures lib st
           (renderTotals lib st
             ([], snd (renderHeaderBlocks lib st ([], 39)) + 32 +
                  sum_list (map (rowHeight lib) (services st)))))"
  by (simp add: renderPdf_def renderTitle_def renderSummary_closed renderRows_closed
      headerHeight_def Let_def add.assoc del: renderSummary.simps)

lemma rowsOps_mem:
  "service \<in> set svcs \<Longrightarrow> \<exists>y. set (rowOps lib service y) \<subseteq> set (rowsOps lib svcs y0)"
proof (induction svcs arbitrary: y0)
  case Nil
  then show ?case by simp
next
  case (Cons a svcs)
  show ?case
  proof (cases "service = a")
    case True
    then show ?thesis by auto
  next
    case False
    with Cons.prems have "service \<in> set svcs" by simp
    from Cons.IH [OF this, of "y0 + rowHeight lib a"] show ?thesis by auto
  qed
qed

subsection \<open>The header blocks\<close>

lemma technicianLines_in_pdf:
  "TextLines (technicianLines st) marginX 45 \<in> set (renderPdf lib st)"
  by (simp add: renderPdf_closed)

lemma exampleState_order:
  "order exampleState =
     \<lparr>orderNumber = [], technician = [], technicianTwo = [], month = [],
      year = ''2025'', company = ''alsleben''\<rparr>"
  by (simp add: exampleState_def handleOrderChange_def initialState_def)

lemma exampleState_customer:
  "customer exampleState =
     \<lparr>fullName = [], email = [], street = [], city = [], phone = []\<rparr>"
  by (simp add: exampleState_def handleOrderChange_def initialState_def)

lemma exampleState_services:
  "services exampleState =
     [\<lparr>id' = ''id-1'', date = [], description = [], hours = [], rate = []\<rparr>]"
  by (simp add: exampleState_def handleOrderChange_def initialState_def createEmptyService_def)

lemma exampleState_label:
  "companyLabel exampleState = ''IT Systemhaus Alsleben GmbH''"
  by (simp add: companyLabel_def companyOptions_def exampleState_order)

lemma exampleState_address:
  "companyAddress exampleState = ''Treskowallee 114, 10319 Berlin''"
  by (simp add: companyAddress_def companyOptions_def exampleState_order)

lemma exampleState_technicianLines:
  "technicianLines exampleState =
     [''-'', ''IT Systemhaus Alsleben GmbH'', ''Treskowallee 114, 10319 Berlin'']"
  by (simp add: technicianLines_def or_else_def exampleState_label exampleState_address
      exampleState_order)

lemma exampleState_customerLines:
  "customerLines exampleState = [''-'']"
  by (simp add: customerLines_def or_else_def exampleState_customer)

text \<open>
  Claim C7. When \<open>order.company\<close> is \<open>alsleben\<close>, the company lookup yields the label
  \<open>IT Systemhaus Alsleben GmbH\<close> and the address \<open>Treskowallee 114, 10319 Berlin\<close>; both are
  lines of the technician block, and the export draws that block in the document.
\<close>

theorem alsleben_in_technician_block:
  assumes "company (order st) = ''alsleben''"
  shows "companyLabel st = ''IT Systemhaus Alsleben GmbH'' \<and>
         companyAddress st = ''Treskowallee 114, 10319 Berlin'' \<and>
         ''IT Systemhaus Alsleben GmbH'' \<in> set (technicianLines st) \<and>
         ''Treskowallee 114, 10319 Berlin'' \<in> set (technicianLines st) \<and>
         handleExportPdf lib st = (st, Some (renderPdf lib st)) \<and>
         TextLines (technicianLines st) marginX 45 \<in> set (renderPdf lib st)"
proof -
  have l: "companyLabel st = ''IT Systemhaus Alsleben GmbH''"
    using assms by (simp add: companyLabel_def companyOptions_def)
  have a: "companyAddress st = ''Treskowallee 114, 10319 Berlin''"
    using assms by (simp add: companyAddress_def companyOptions_def)
  have e: "handleExportPdf lib st = (st, Some (renderPdf lib st))"
    using assms by (simp add: handleExportPdf_def)
  have m1: "''IT Systemhaus Alsleben GmbH'' \<in> set (technicianLines st)"
    by (simp add: technicianLines_def l)
  have m2: "''Treskowallee 114, 10319 Berlin'' \<in> set (technicianLines st)"
    by (simp add: technicianLines_def a)
  from l a m1 m2 e technicianLines_in_pdf [of st lib] show ?thesis
    by blast
qed

theorem alsleben_in_technician_block_witness:
  "company (order exampleState) = ''alsleben'' \<and>
   ''IT Systemhaus Alsleben GmbH'' \<in> set (technicianLines exampleState) \<and>
   ''Treskowallee 114, 10319 Berlin'' \<in> set (technicianLines exampleState) \<and>
   TextLines [''-'', ''IT Systemhaus Alsleben GmbH'', ''Treskowallee 114, 10319 Berlin'']
     marginX 45 \<in> set (renderPdf exampleLib exampleState)"
proof -
  have c: "company (order exampleState) = ''alsleben''"
    by (simp add: exampleState_order)
  note t = alsleben_in_technician_block [OF c, of exampleLib]
  from t have "TextLines (technicianLines exampleState) marginX 45
      \<in> set (renderPdf exampleLib exampleState)"
    by blast
  then have "TextLines [''-'', ''IT Systemhaus Alsleben GmbH'', ''Treskowallee 114, 10319 Berlin'']
     marginX 45 \<in> set (renderPdf exampleLib exampleState)"
    by (simp only: exampleState_technicianLines)
  with t c show ?thesis by blast
qed

text \<open>
  Claim C5, as the code has it. Each of the two header blocks has the height (number
  of its non-empty lines + 1) times the line height 6: the technician block holds the
  technician's name or a dash and, each when not empty, the second technician, the
  company label and the company address; the customer block holds the name or a dash
  and, each when not empty, street, city, phone and e-mail. After the two blocks
  \<open>cursorY\<close> has advanced by the taller of the two heights plus a gap of 4.
\<close>

theorem header_blocks_height:
  "length (technicianLines st) =
     1 + (if technicianTwo (order st) \<noteq> [] then 1 else 0) +
         (if companyLabel st \<noteq> [] then 1 else 0) +
         (if companyAddress st \<noteq> [] then 1 else 0) \<and>
   length (customerLines st) =
     1 + (if street (customer st) \<noteq> [] then 1 else 0) +
         (if city (customer st) \<noteq> [] then 1 else 0) +
         (if phone (customer st) \<noteq> [] then 1 else 0) +
         (if email (customer st) \<noteq> [] then 1 else 0) \<and>
   [] \<notin> set (technicianLines st) \<and> [] \<notin> set (customerLines st) \<and>
   technicianBlockHeight st = (of_nat (length (technicianLines st)) + 1) * 6 \<and>
   customerBlockHeight st = (of_nat (length (customerLines st)) + 1) * 6 \<and>
   snd (renderHeaderBlocks lib st (ops, cursorY)) =
     cursorY + max (technicianBlockHeight st) (customerBlockHeight st) + 4"
proof -
  have 1: "length (technicianLines st) =
     1 + (if technicianTwo (order st) \<noteq> [] then 1 else 0) +
         (if companyLabel st \<noteq> [] then 1 else 0) +
         (if companyAddress st \<noteq> [] then 1 else 0)"
    by (simp add: technicianLines_def or_else_def)
  have 2: "length (customerLines st) =
     1 + (if street (customer st) \<noteq> [] then 1 else 0) +
         (if city (customer st) \<noteq> [] then 1 else 0) +
         (if phone (customer st) \<noteq> [] then 1 else 0) +
         (if email (customer st) \<noteq> [] then 1 else 0)"
    by (simp add: customerLines_def or_else_def)
  have 3: "[] \<notin> set (technicianLines st)" "[] \<notin> set (customerLines st)"
    by (simp_all add: technicianLines_def customerLines_def)
  have 4: "technicianBlockHeight st = (of_nat (length (technicianLines st)) + 1) * 6"
    "customerBlockHeight st = (of_nat (length (customerLines st)) + 1) * 6"
    by (simp_all only: technicianBlockHeight_def customerBlockHeight_def)
  have 5: "snd (renderHeaderBlocks lib st (ops, cursorY)) =
     cursorY + max (technicianBlockHeight st) (customerBlockHeight st) + 4"
    by simp
  from 1 2 3 4 5 show ?thesis by blast
qed

lemma exampleState_heights:
  "technicianBlockHeight exampleState = 24" "customerBlockHeight exampleState = 12"
  by (simp_all add: technicianBlockHeight_def customerBlockHeight_def
      exampleState_technicianLines exampleState_customerLines)

theorem header_blocks_height_witness:
  "technicianBlockHeight exampleState = 24 \<and> customerBlockHeight exampleState = 12 \<and>
   snd (renderHeaderBlocks exampleLib exampleState ([], 39)) = 67"
proof -
  note t = header_blocks_height [of exampleState exampleLib "[]" 39]
  have "snd (renderHeaderBlocks exampleLib exampleState ([], 39)) =
      39 + max (technicianBlockHeight exampleState) (customerBlockHeight exampleState) + 4"
    using t by blast
  then show ?thesis by (simp add: exampleState_heights)
qed

text \<open>
  The claim as the specification words it, that \<open>cursorY\<close> advances by exactly the
  taller of the two block heights, fails on the example form: the taller block is 24
  high and \<open>cursorY\<close> goes from 39 to 67.
\<close>

theorem header_blocks_advance_counterexample:
  "snd (renderHeaderBlocks exampleLib exampleState ([], 39)) \<noteq>
     39 + max (technicianBlockHeight exampleState) (customerBlockHeight exampleState)"
  by (simp add: exampleState_heights)

subsection \<open>The rows of the table\<close>

lemma rowOps_eq:
  "rowOps lib service y =
     [Text (dateText service) (marginX + 3) (y + 5),
      TextLines (descLines lib service) (marginX + dateWidth + 3) (y + 5),
      Text (hoursText (round64 lib) service) (marginX + dateWidth + descWidth lib + 3) (y + 5),
      Text (rateText (round64 lib) service)
        (marginX + dateWidth + descWidth lib + hoursWidth + 3) (y + 5),
      Line marginX (y + rowHeight lib service) (marginX + tableWidth lib)
        (y + rowHeight lib service)]"
  by (simp add: rowOps_def)

lemma parseFloat_empty: "parseFloat rnd [] = NaN"
  by (simp add: parseFloat_def strUnsignedDecimalLiteral_def trimStart_empty)

text \<open>
  Claim C6. The rows are rendered in list order, each from where the one before it
  ended. For every service entry the description (a dash when empty, so never the
  empty text) is wrapped to the width of the description column less 6; the row's
  height is the larger of the number of wrapped lines times the line height 6 and the
  minimum row height 8; a rule is drawn across the table at the bottom of the row; and
  \<open>cursorY\<close> advances by exactly the row's height. The wrapped lines are one or more
  whenever the platform's \<open>splitTextToSize\<close> gives at least one line for a text that is
  not empty.
\<close>

theorem rows_layout:
  "renderRows lib (svcs @ [service]) page = renderRow lib (renderRows lib svcs page) service \<and>
   (\<forall>i < length svcs.
      renderRows lib (take (Suc i) svcs) (ops, cursorY) =
        renderRow lib (renderRows lib (take i svcs) (ops, cursorY)) (svcs ! i) \<and>
      snd (renderRows lib (take i svcs) (ops, cursorY)) =
        cursorY + sum_list (map (rowHeight lib) (take i svcs))) \<and>
   renderRow lib (ops, cursorY) service =
     (let wrapped = splitTextToSize lib (or_else (description service) ''-'') (descWidth lib - 6);
          h = max (of_nat (length wrapped) * 6) 8
      in (ops @
          [Text (dateText service) (marginX + 3) (cursorY + 5),
           TextLines wrapped (marginX + dateWidth + 3) (cursorY + 5),
           Text (hoursText (round64 lib) service)
             (marginX + dateWidth + descWidth lib + 3) (cursorY + 5),
           Text (rateText (round64 lib) service)
             (marginX + dateWidth + descWidth lib + hoursWidth + 3) (cursorY + 5),
           Line marginX (cursorY + h) (marginX + tableWidth lib) (cursorY + h)],
          cursorY + h)) \<and>
   or_else (description service) ''-'' \<noteq> [] \<and>
   ((\<forall>text w. text \<noteq> [] \<longrightarrow> splitTextToSize lib text w \<noteq> []) \<longrightarrow>
      1 \<le> length (descLines lib service)) \<and>
   8 \<le> rowHeight lib service \<and>
   snd (renderRows lib svcs (ops, cursorY)) = cursorY + sum_list (map (rowHeight lib) svcs)"
proof -
  have order: "\<forall>i < length svcs.
      renderRows lib (take (Suc i) svcs) (ops, cursorY) =
        renderRow lib (renderRows lib (take i svcs) (ops, cursorY)) (svcs ! i) \<and>
      snd (renderRows lib (take i svcs) (ops, cursorY)) =
        cursorY + sum_list (map (rowHeight lib) (take i svcs))"
  proof (intro allI impI conjI)
    fix i assume "i < length svcs"
    then show "renderRows lib (take (Suc i) svcs) (ops, cursorY) =
        renderRow lib (renderRows lib (take i svcs) (ops, cursorY)) (svcs ! i)"
      by (simp only: take_Suc_conv_app_nth renderRows_snoc)
  next
    fix i
    show "snd (renderRows lib (take i svcs) (ops, cursorY)) =
        cursorY + sum_list (map (rowHeight lib) (take i svcs))"
      by (simp add: renderRows_closed)
  qed
  have row: "renderRow lib (ops, cursorY) service =
     (let wrapped = splitTextToSize lib (or_else (description service) ''-'') (descWidth lib - 6);
          h = max (of_nat (length wrapped) * 6) 8
      in (ops @
          [Text (dateText service) (marginX + 3) (cursorY + 5),
           TextLines wrapped (marginX + dateWidth + 3) (cursorY + 5),
           Text (hoursText (round64 lib) service)
             (marginX + dateWidth + descWidth lib + 3) (cursorY + 5),
           Text (rateText (round64 lib) service)
             (marginX + dateWidth + descWidth lib + hoursWidth + 3) (cursorY + 5),
           Line marginX (cursorY + h) (marginX + tableWidth lib) (cursorY + h)],
          cursorY + h))"
    by (simp add: Let_def rowHeight_def descLines_def)
  have nonempty: "or_else (description service) ''-'' \<noteq> []"
    by (simp add: or_else_def)
  have lines: "(\<forall>text w. text \<noteq> [] \<longrightarrow> splitTextToSize lib text w \<noteq> []) \<longrightarrow>
      1 \<le> length (descLines lib service)"
    using nonempty by (auto simp add: descLines_def Suc_le_eq)
  have low: "8 \<le> rowHeight lib service"
    by (simp add: rowHeight_def)
  have total: "snd (renderRows lib svcs (ops, cursorY)) =
      cursorY + sum_list (map (rowHeight lib) svcs)"
    by (simp add: renderRows_closed)
  from renderRows_snoc [of lib svcs service page] order row nonempty lines low total
  show ?thesis by blast
qed

theorem rows_layout_witness:
  "splitTextToSize exampleLib = (\<lambda>text w. [text]) \<and>
   (0::nat) < length (services exampleState) \<and>
   1 \<le> length (descLines exampleLib (services exampleState ! 0)) \<and>
   renderRows exampleLib (take (Suc 0) (services exampleState)) ([], 99) =
     renderRow exampleLib ([], 99) (services exampleState ! 0) \<and>
   snd (renderRow exampleLib ([], 99) (services exampleState ! 0)) = 107"
proof -
  have sp: "\<forall>text w. text \<noteq> [] \<longrightarrow> splitTextToSize exampleLib text w \<noteq> []"
    by (simp add: exampleLib_def)
  have len: "(0::nat) < length (services exampleState)"
    by (simp add: exampleState_services)
  note t = rows_layout [of exampleLib "services exampleState" "services exampleState ! 0"
      "([], 99)" "[]" 99]
  from t sp have l: "1 \<le> length (descLines exampleLib (services exampleState ! 0))"
    by blast
  from t len have r: "renderRows exampleLib (take (Suc 0) (services exampleState)) ([], 99) =
      renderRow exampleLib (renderRows exampleLib (take 0 (services exampleState)) ([], 99))
        (services exampleState ! 0)"
    by blast
  have r': "renderRows exampleLib (take (Suc 0) (services exampleState)) ([], 99) =
      renderRow exampleLib ([], 99) (services exampleState ! 0)"
    using r by (simp add: renderRows_def)
  have h: "snd (renderRow exampleLib ([], 99) (services exampleState ! 0)) = 107"
    by (simp add: rowHeight_def descLines_def exampleLib_def)
  have sp': "splitTextToSize exampleLib = (\<lambda>text w. [text])"
    by (simp add: exampleLib_def)
  from sp' len l r' h show ?thesis by blast
qed

subsection \<open>The export\<close>

lemma rows_in_pdf:
  assumes "service \<in> set (services st)"
  shows "\<exists>y. set (rowOps lib service y) \<subseteq> set (renderPdf lib st)"
proof -
  from rowsOps_mem [OF assms, of lib "snd (renderHeaderBlocks lib st ([], 39)) + 32"]
  obtain y where "set (rowOps lib service y) \<subseteq>
      set (rowsOps lib (services st) (snd (renderHeaderBlocks lib st ([], 39)) + 32))"
    by blast
  then have "set (rowOps lib service y) \<subseteq> set (renderPdf lib st)"
    unfolding renderPdf_closed [of lib st] set_append by blast
  then show ?thesis by blast
qed

lemma header_texts_in_pdf:
  "TextLines (customerLines st) (pageWidth lib / 2 + 5) 45 \<in> set (renderPdf lib st)"
  "\<exists>y. Text (summaryLines st ! 0) marginX y \<in> set (renderPdf lib st)"
  "\<exists>y. Text (summaryLines st ! 1) marginX y \<in> set (renderPdf lib st)"
proof -
  let ?y = "snd (renderHeaderBlocks lib st ([], 39))"
  have "TextLines (customerLines st) (pageWidth lib / 2 + 5) 45
      \<in> set (fst (renderHeaderBlocks lib st ([], 39)))"
    by simp
  then show "TextLines (customerLines st) (pageWidth lib / 2 + 5) 45 \<in> set (renderPdf lib st)"
    unfolding renderPdf_closed [of lib st] set_append Un_iff by blast
  have "Text (summaryLines st ! 0) marginX ?y \<in> set (fst (renderSummary st ([], ?y)))"
    by (simp add: renderSummary_closed del: renderSummary.simps renderHeaderBlocks.simps)
  then have "Text (summaryLines st ! 0) marginX ?y \<in> set (renderPdf lib st)"
    unfolding renderPdf_closed [of lib st] set_append Un_iff by blast
  then show "\<exists>y. Text (summaryLines st ! 0) marginX y \<in> set (renderPdf lib st)"
    by blast
  have "Text (summaryLines st ! 1) marginX (?y + 6) \<in> set (fst (renderSummary st ([], ?y)))"
    by (simp add: renderSummary_closed del: renderSummary.simps renderHeaderBlocks.simps)
  then have "Text (summaryLines st ! 1) marginX (?y + 6) \<in> set (renderPdf lib st)"
    unfolding renderPdf_closed [of lib st] set_append Un_iff by blast
  then show "\<exists>y. Text (summaryLines st ! 1) marginX y \<in> set (renderPdf lib st)"
    by blast
qed

lemma renderPdf_last: "last (renderPdf lib st) = Save ''leistungsnachweis.pdf''"
proof -
  obtain ops y where p: "renderTotals lib st
      (renderRows lib (services st)
        (renderTableHeader lib
          (renderSummary st (renderHeaderBlocks lib st (renderTitle lib))))) = (ops, y)"
    by (cases "renderTotals lib st
      (renderRows lib (services st)
        (renderTableHeader lib
          (renderSummary st (renderHeaderBlocks lib st (renderTitle lib)))))") blast
  show ?thesis
    unfolding renderPdf_def p by (simp add: Let_def)
qed

text \<open>
  Claim C2, as the code has it. The export produces a document if and only if
  \<open>order.company\<close> is not empty. With an empty company no document is produced and
  \<open>companyTouched\<close> is set, whatever the other fields hold; the rest of the state is
  unchanged. With a company the state is unchanged and the document is produced and
  saved (its last call is \<open>pdf.save\<close>). In the document a dash stands for an empty
  technician, customer name, order number, month, and for an empty date, description,
  hours or price of a service entry; an empty second technician, street, city, phone
  or e-mail has no line at all in its block (as an empty company label or address would
  have none), and an empty year adds nothing to the line of the period.
\<close>

theorem export_iff_company:
  "(company (order st) = [] \<longrightarrow>
      handleExportPdf lib st = (st\<lparr>companyTouched := True\<rparr>, None)) \<and>
   (company (order st) \<noteq> [] \<longrightarrow>
      handleExportPdf lib st = (st, Some (renderPdf lib st))) \<and>
   (snd (handleExportPdf lib st) \<noteq> None) = (company (order st) \<noteq> []) \<and>
   last (renderPdf lib st) = Save ''leistungsnachweis.pdf'' \<and>
   technicianLines st =
     or_else (technician (order st)) ''-'' #
     (if technicianTwo (order st) \<noteq> [] then [''+ '' @ technicianTwo (order st)] else []) @
     (if companyLabel st \<noteq> [] then [companyLabel st] else []) @
     (if companyAddress st \<noteq> [] then [companyAddress st] else []) \<and>
   customerLines st =
     or_else (fullName (customer st)) ''-'' #
     (if street (customer st) \<noteq> [] then [street (customer st)] else []) @
     (if city (customer st) \<noteq> [] then [city (customer st)] else []) @
     (if phone (customer st) \<noteq> [] then [''Tel: '' @ phone (customer st)] else []) @
     (if email (customer st) \<noteq> [] then [''E-Mail: '' @ email (customer st)] else []) \<and>
   summaryLines st ! 1 =
     trim (''Zeitraum: '' @ or_else (month (order st)) ''-'' @ '' '' @ year (order st)) \<and>
   TextLines (technicianLines st) marginX 45 \<in> set (renderPdf lib st) \<and>
   (technician (order st) = [] \<longrightarrow> hd (technicianLines st) = ''-'') \<and>
   TextLines (customerLines st) (pageWidth lib / 2 + 5) 45 \<in> set (renderPdf lib st) \<and>
   (fullName (customer st) = [] \<longrightarrow> hd (customerLines st) = ''-'') \<and>
   (\<exists>y. Text (summaryLines st ! 0) marginX y \<in> set (renderPdf lib st)) \<and>
   (orderNumber (order st) = [] \<longrightarrow> summaryLines st ! 0 = ''Auftragsnummer: -'') \<and>
   (\<exists>y. Text (summaryLines st ! 1) marginX y \<in> set (renderPdf lib st)) \<and>
   (month (order st) = [] \<longrightarrow>
      summaryLines st ! 1 = trim (''Zeitraum: - '' @ year (order st))) \<and>
   (\<forall>service \<in> set (services st).
      (\<exists>y. {Text (dateText service) (marginX + 3) (y + 5),
            TextLines (descLines lib service) (marginX + dateWidth + 3) (y + 5),
            Text (hoursText (round64 lib) service)
              (marginX + dateWidth + descWidth lib + 3) (y + 5),
            Text (rateText (round64 lib) service)
              (marginX + dateWidth + descWidth lib + hoursWidth + 3) (y + 5)}
           \<subseteq> set (renderPdf lib st)) \<and>
      (date service = [] \<longrightarrow> dateText service = ''-'') \<and>
      (description service = [] \<longrightarrow>
         descLines lib service = splitTextToSize lib ''-'' (descWidth lib - 6)) \<and>
      (hours service = [] \<longrightarrow> hoursText (round64 lib) service = ''-'') \<and>
      (rate service = [] \<longrightarrow> rateText (round64 lib) service = ''-''))"
proof -
  have guard: "(company (order st) = [] \<longrightarrow>
      handleExportPdf lib st = (st\<lparr>companyTouched := True\<rparr>, None)) \<and>
    (company (order st) \<noteq> [] \<longrightarrow>
      handleExportPdf lib st = (st, Some (renderPdf lib st))) \<and>
    (snd (handleExportPdf lib st) \<noteq> None) = (company (order st) \<noteq> [])"
    by (simp add: handleExportPdf_def)
  have tech: "technician (order st) = [] \<longrightarrow> hd (technicianLines st) = ''-''"
    by (simp add: technicianLines_def or_else_def)
  have cust: "fullName (customer st) = [] \<longrightarrow> hd (customerLines st) = ''-''"
    by (simp add: customerLines_def or_else_def)
  have num: "orderNumber (order st) = [] \<longrightarrow> summaryLines st ! 0 = ''Auftragsnummer: -''"
    by (simp add: summaryLines_def or_else_def)
  have mon: "month (order st) = [] \<longrightarrow>
      summaryLines st ! 1 = trim (''Zeitraum: - '' @ year (order st))"
    by (simp add: summaryLines_def or_else_def)
  have rows: "\<forall>service \<in> set (services st).
      (\<exists>y. {Text (dateText service) (marginX + 3) (y + 5),
            TextLines (descLines lib service) (marginX + dateWidth + 3) (y + 5),
            Text (hoursText (round64 lib) service)
              (marginX + dateWidth + descWidth lib + 3) (y + 5),
            Text (rateText (round64 lib) service)
              (marginX + dateWidth + descWidth lib + hoursWidth + 3) (y + 5)}
           \<subseteq> set (renderPdf lib st)) \<and>
      (date service = [] \<longrightarrow> dateText service = ''-'') \<and>
      (description service = [] \<longrightarrow>
         descLines lib service = splitTextToSize lib ''-'' (descWidth lib - 6)) \<and>
      (hours service = [] \<longrightarrow> hoursText (round64 lib) service = ''-'') \<and>
      (rate service = [] \<longrightarrow> rateText (round64 lib) service = ''-'')"
  proof (intro ballI conjI)
    fix service assume "service \<in> set (services st)"
    from rows_in_pdf [OF this, of lib] obtain y
      where "set (rowOps lib service y) \<subseteq> set (renderPdf lib st)" by blast
    then have "{Text (dateText service) (marginX + 3) (y + 5),
            TextLines (descLines lib service) (marginX + dateWidth + 3) (y + 5),
            Text (hoursText (round64 lib) service)
              (marginX + dateWidth + descWidth lib + 3) (y + 5),
            Text (rateText (round64 lib) service)
              (marginX + dateWidth + descWidth lib + hoursWidth + 3) (y + 5)}
           \<subseteq> set (renderPdf lib st)"
      by (simp add: rowOps_eq)
    then show "\<exists>y. {Text (dateText service) (marginX + 3) (y + 5),
            TextLines (descLines lib service) (marginX + dateWidth + 3) (y + 5),
            Text (hoursText (round64 lib) service)
              (marginX + dateWidth + descWidth lib + 3) (y + 5),
            Text (rateText (round64 lib) service)
              (marginX + dateWidth + descWidth lib + hoursWidth + 3) (y + 5)}
           \<subseteq> set (renderPdf lib st)"
      by blast
  next
    fix service
    show "date service = [] \<longrightarrow> dateText service = ''-''"
      by (simp add: dateText_def or_else_def)
    show "description service = [] \<longrightarrow>
         descLines lib service = splitTextToSize lib ''-'' (descWidth lib - 6)"
      by (simp add: descLines_def or_else_def)
    show "hours service = [] \<longrightarrow> hoursText (round64 lib) service = ''-''"
      by (simp add: hoursText_def parseFloat_empty)
    show "rate service = [] \<longrightarrow> rateText (round64 lib) service = ''-''"
      by (simp add: rateText_def parseFloat_empty)
  qed
  have tl: "technicianLines st =
     or_else (technician (order st)) ''-'' #
     (if technicianTwo (order st) \<noteq> [] then [''+ '' @ technicianTwo (order st)] else []) @
     (if companyLabel st \<noteq> [] then [companyLabel st] else []) @
     (if companyAddress st \<noteq> [] then [companyAddress st] else [])"
    by (simp add: technicianLines_def or_else_def)
  have cl: "customerLines st =
     or_else (fullName (customer st)) ''-'' #
     (if street (customer st) \<noteq> [] then [street (customer st)] else []) @
     (if city (customer st) \<noteq> [] then [city (customer st)] else []) @
     (if phone (customer st) \<noteq> [] then [''Tel: '' @ phone (customer st)] else []) @
     (if email (customer st) \<noteq> [] then [''E-Mail: '' @ email (customer st)] else [])"
    by (simp add: customerLines_def or_else_def)
  have yr: "summaryLines st ! 1 =
     trim (''Zeitraum: '' @ or_else (month (order st)) ''-'' @ '' '' @ year (order st))"
    by (simp add: summaryLines_def or_else_def)
  from guard tech cust num mon rows technicianLines_in_pdf [of st lib]
    header_texts_in_pdf [of st lib] renderPdf_last [of lib st] tl cl yr
  show ?thesis by blast
qed

lemma initialState_fields:
  "company (order (initialState y u)) = []"
  "companyTouched (initialState y u) = False"
  by (simp_all add: initialState_def)

theorem export_iff_company_witness:
  "company (order (initialState ''2025'' ''id-1'')) = [] \<and>
   handleExportPdf exampleLib (initialState ''2025'' ''id-1'') =
     ((initialState ''2025'' ''id-1'')\<lparr>companyTouched := True\<rparr>, None) \<and>
   company (order exampleState) \<noteq> [] \<and>
   handleExportPdf exampleLib exampleState =
     (exampleState, Some (renderPdf exampleLib exampleState)) \<and>
   technician (order exampleState) = [] \<and> hd (technicianLines exampleState) = ''-'' \<and>
   services exampleState ! 0 \<in> set (services exampleState) \<and>
   hours (services exampleState ! 0) = [] \<and>
   hoursText (round64 exampleLib) (services exampleState ! 0) = ''-'' \<and>
   last (renderPdf exampleLib exampleState) = Save ''leistungsnachweis.pdf''"
proof -
  have c0: "company (order (initialState ''2025'' ''id-1'')) = []"
    by (simp add: initialState_fields)
  have c1: "company (order exampleState) \<noteq> []"
    by (simp add: exampleState_order)
  have t1: "technician (order exampleState) = []"
    by (simp add: exampleState_order)
  have m: "services exampleState ! 0 \<in> set (services exampleState)"
    by (simp add: exampleState_services)
  have h: "hours (services exampleState ! 0) = []"
    by (simp add: exampleState_services)
  note a = export_iff_company [of "initialState ''2025'' ''id-1''" exampleLib]
  note b = export_iff_company [of exampleState exampleLib]
  from a c0 have 1: "handleExportPdf exampleLib (initialState ''2025'' ''id-1'') =
     ((initialState ''2025'' ''id-1'')\<lparr>companyTouched := True\<rparr>, None)"
    by blast
  from b c1 have 2: "handleExportPdf exampleLib exampleState =
     (exampleState, Some (renderPdf exampleLib exampleState))"
    by blast
  from b t1 have 3: "hd (technicianLines exampleState) = ''-''"
    by blast
  from b m h have 4: "hoursText (round64 exampleLib) (services exampleState ! 0) = ''-''"
    by blast
  from b have 5: "last (renderPdf exampleLib exampleState) = Save ''leistungsnachweis.pdf''"
    by blast
  from c0 1 c1 2 t1 3 m h 4 5 show ?thesis by blast
qed

text \<open>
  The claim as the specification words it, that the export substitutes a placeholder
  for empty fields, fails for the fields that the code leaves out. On the example form
  with the customer name \<open>Max\<close> the street, city, phone and e-mail are empty; the
  document is produced, and its customer block is the one line \<open>Max\<close>: no dash stands
  for any of the four.
\<close>

theorem export_placeholder_counterexample:
  "company (order (handleCustomerChange K_fullName ''Max'' exampleState)) \<noteq> [] \<and>
   street (customer (handleCustomerChange K_fullName ''Max'' exampleState)) = [] \<and>
   city (customer (handleCustomerChange K_fullName ''Max'' exampleState)) = [] \<and>
   phone (customer (handleCustomerChange K_fullName ''Max'' exampleState)) = [] \<and>
   email (customer (handleCustomerChange K_fullName ''Max'' exampleState)) = [] \<and>
   snd (handleExportPdf exampleLib (handleCustomerChange K_fullName ''Max'' exampleState)) =
     Some (renderPdf exampleLib (handleCustomerChange K_fullName ''Max'' exampleState)) \<and>
   customerLines (handleCustomerChange K_fullName ''Max'' exampleState) = [''Max''] \<and>
   ''-'' \<notin> set (customerLines (handleCustomerChange K_fullName ''Max'' exampleState)) \<and>
   TextLines [''Max''] 110 45
     \<in> set (renderPdf exampleLib (handleCustomerChange K_fullName ''Max'' exampleState))"
proof -
  let ?st = "handleCustomerChange K_fullName ''Max'' exampleState"
  have c: "customer ?st =
      \<lparr>fullName = ''Max'', email = [], street = [], city = [], phone = []\<rparr>"
    by (simp add: handleCustomerChange_def exampleState_customer)
  have o: "order ?st = order exampleState"
    by (simp add: handleCustomerChange_def)
  have l: "customerLines ?st = [''Max'']"
    by (simp add: customerLines_def or_else_def c)
  have e: "snd (handleExportPdf exampleLib ?st) = Some (renderPdf exampleLib ?st)"
    by (simp add: handleExportPdf_def o exampleState_order)
  have "TextLines (customerLines ?st) (pageWidth exampleLib / 2 + 5) 45
      \<in> set (renderPdf exampleLib ?st)"
    by (rule header_texts_in_pdf(1))
  then have d: "TextLines [''Max''] 110 45 \<in> set (renderPdf exampleLib ?st)"
    by (simp add: l exampleLib_def)
  show ?thesis
    using d e by (simp add: l c o exampleState_order)
qed

subsection \<open>Numbers in the table\<close>

lemma digitsOf_numeral:
  "digitsOf (numeral k) =
     (if (numeral k :: nat) < 10 then [char_of (48 + (numeral k :: nat))]
      else digitsOf (numeral k div 10) @ [char_of (48 + (numeral k :: nat) mod 10)])"
  by (rule digitsOf.simps)

lemma c48:
  "char_of (48::nat) = CHR ''0''" "char_of (49::nat) = CHR ''1''"
  "char_of (50::nat) = CHR ''2''" "char_of (51::nat) = CHR ''3''"
  "char_of (52::nat) = CHR ''4''" "char_of (53::nat) = CHR ''5''"
  "char_of (54::nat) = CHR ''6''" "char_of (55::nat) = CHR ''7''"
  "char_of (56::nat) = CHR ''8''" "char_of (57::nat) = CHR ''9''"
  by code_simp+

lemma floor_numeral_div:
  "\<lfloor>numeral a / numeral b :: rat\<rfloor> = numeral a div numeral b"
  using floor_divide_of_int_eq [of "numeral a" "numeral b", where ?'a = rat] by simp

lemma digitsOf_small: "digitsOf 0 = ''0''" "digitsOf 1 = ''1''" "digitsOf (Suc 0) = ''1''"
  by (simp_all add: digitsOf.simps c48)

lemmas digitsOf_eval = digitsOf_numeral digitsOf_small c48

lemma group3_short: "length ds \<le> 3 \<Longrightarrow> group3 ds = ds"
  by (simp add: group3.simps)

lemma toFixed_2: "toFixed 2 (Finite 2) = ''2.00''"
  by (simp add: toFixed_def fixedDigits_def roundHalfUp_def digitsOf_eval floor_numeral_div
      Let_def)

lemma formatCurrency_10_50: "formatCurrency (Finite (21 / 2)) = ''10,50'' @ euroSuffix"
  by (simp add: formatCurrency_def roundHalfUp_def digitsOf_eval group3_short Let_def
      floor_numeral_div)

lemma parseFloat_1e21: "parseFloat Finite ''1e21'' = Finite 1000000000000000000000"
  by (simp add: parseFloat_def strUnsignedDecimalLiteral_def trimStart_examples
        trimStart_empty isDigit_def
        digitsValue_def exponentPart_def scale10_def)

lemma toFixed_1e21: "toFixed 2 (Finite 1000000000000000000000) = ''1e+21''"
proof -
  have d: "digitsOf 1000000000000000000000 = ''1000000000000000000000''"
    by (simp add: digitsOf_eval)
  have l: "length ''1000000000000000000000'' - 1 = (21::nat)"
    by simp
  have z: "dropTrailingZeros ''1000000000000000000000'' = ''1''"
    by (simp add: dropTrailingZeros_def)
  have e: "digitsOf 21 = ''21''"
    by (simp add: digitsOf_eval)
  have "numberToStringLarge 1000000000000000000000 = ''1e+21''"
    unfolding numberToStringLarge_def floor_numeral nat_numeral d Let_def l z e by simp
  then show ?thesis
    by (simp add: toFixed_def)
qed

lemma isDigit_char_of: "(d::nat) < 10 \<Longrightarrow> isDigit (char_of (48 + d))"
  by (simp add: isDigit_def)

lemma digitsOf_digits: "c \<in> set (digitsOf n) \<Longrightarrow> isDigit c"
proof (induction n arbitrary: c rule: digitsOf.induct)
  case (1 n)
  show ?case
  proof (cases "n < 10")
    case True
    with "1.prems" show ?thesis
      by (simp add: digitsOf.simps [of n] isDigit_char_of)
  next
    case False
    with "1.prems" have "c \<in> set (digitsOf (n div 10)) \<or> c = char_of (48 + n mod 10)"
      by (auto simp add: digitsOf.simps [of n])
    then show ?thesis
      using "1.IH" [OF False] isDigit_char_of [of "n mod 10"] by auto
  qed
qed

lemma digitsOf_nonempty: "digitsOf n \<noteq> []"
  by (cases "n < 10") (simp_all add: digitsOf.simps [of n])

lemma digitsOf_two:
  "n < 100 \<Longrightarrow>
   (if length (digitsOf n) < 2 then ''0'' @ digitsOf n else digitsOf n) =
     [char_of (48 + n div 10), char_of (48 + n mod 10)]"
  by (cases "n < 10") (simp_all add: digitsOf.simps [of n] digitsOf.simps [of "n div 10"] c48)

lemma not_digit_chars: "\<not> isDigit CHR ''.''" "\<not> isDigit CHR '',''" "\<not> isDigit CHR ''-''"
  "isDigit CHR ''0''"
  by (simp_all add: isDigit_def)

lemma isFixed2_shape:
  assumes "pre \<noteq> []" "\<forall>c \<in> set pre. isDigit c" "isDigit a" "isDigit b"
  shows "isFixed2 (pre @ CHR ''.'' # [a, b])" "isFixed2 (CHR ''-'' # pre @ CHR ''.'' # [a, b])"
proof -
  have tw: "takeWhile isDigit (pre @ CHR ''.'' # [a, b]) = pre"
    using assms(2) by (simp add: takeWhile_append2 not_digit_chars)
  have dw: "dropWhile isDigit (pre @ CHR ''.'' # [a, b]) = CHR ''.'' # [a, b]"
    using assms(2) by (simp add: dropWhile_append2 not_digit_chars)
  have hd: "hd (pre @ CHR ''.'' # [a, b]) \<noteq> CHR ''-''"
    using assms(1,2) not_digit_chars(3) by (cases pre) auto
  show "isFixed2 (pre @ CHR ''.'' # [a, b])"
    unfolding isFixed2_def using hd assms by (simp add: tw dw)
  show "isFixed2 (CHR ''-'' # pre @ CHR ''.'' # [a, b])"
    unfolding isFixed2_def using assms by (simp add: tw dw)
qed

lemma length_two: "length xs = 2 \<Longrightarrow> \<exists>a b. xs = [a, b]"
  by (auto simp add: numeral_2_eq_2 length_Suc_conv)

lemma length_three: "length xs = 3 \<Longrightarrow> \<exists>a b c. xs = [a, b, c]"
  by (auto simp add: numeral_3_eq_3 length_Suc_conv)

lemma fixedDigits_shape:
  "\<exists>pre a b. fixedDigits 2 x = pre @ CHR ''.'' # [a, b] \<and> pre \<noteq> [] \<and>
     (\<forall>c \<in> set pre. isDigit c) \<and> isDigit a \<and> isDigit b"
proof -
  let ?n = "roundHalfUp (x * 10 ^ 2)"
  let ?m0 = "if ?n = 0 then ''0'' else digitsOf ?n"
  let ?m1 = "if length ?m0 \<le> 2 then replicate (2 + 1 - length ?m0) CHR ''0'' @ ?m0 else ?m0"
  let ?pre = "take (length ?m1 - 2) ?m1"
  have m0d: "\<forall>c \<in> set ?m0. isDigit c"
    by (auto simp add: not_digit_chars dest: digitsOf_digits)
  have m1d: "\<forall>c \<in> set ?m1. isDigit c"
    using m0d by (auto simp add: not_digit_chars)
  have m1l: "3 \<le> length ?m1"
    by auto
  have pre: "?pre \<noteq> []" "\<forall>c \<in> set ?pre. isDigit c"
    using m1l m1d by (auto dest: in_set_takeD)
  have "length (drop (length ?m1 - 2) ?m1) = 2"
    using m1l by simp
  then have "\<exists>a b. drop (length ?m1 - 2) ?m1 = [a, b]"
    by (rule length_two)
  then obtain a b where ab: "drop (length ?m1 - 2) ?m1 = [a, b]"
    by blast
  have "a \<in> set ?m1" "b \<in> set ?m1"
    using in_set_dropD [of a "length ?m1 - 2" ?m1] in_set_dropD [of b "length ?m1 - 2" ?m1]
    unfolding ab by simp_all
  with m1d have d: "isDigit a" "isDigit b" by blast+
  have "fixedDigits 2 x = ?pre @ CHR ''.'' # drop (length ?m1 - 2) ?m1"
    by (simp add: fixedDigits_def Let_def)
  then have "fixedDigits 2 x = ?pre @ CHR ''.'' # [a, b]"
    unfolding ab .
  with pre d show ?thesis by blast
qed

lemma toFixed_two_decimals:
  assumes "\<bar>x\<bar> < 10 ^ 21"
  shows "isFixed2 (toFixed 2 (Finite x))"
proof -
  let ?X = "if x < 0 then - x else x"
  from fixedDigits_shape [of ?X] obtain pre a b
    where f: "fixedDigits 2 ?X = pre @ CHR ''.'' # [a, b]"
      and p: "pre \<noteq> []" "\<forall>c \<in> set pre. isDigit c" and d: "isDigit a" "isDigit b"
    by blast
  have small: "\<not> 10 ^ 21 \<le> ?X"
    using assms by auto
  have "toFixed 2 (Finite x) = (if x < 0 then ''-'' else []) @ fixedDigits 2 ?X"
    unfolding toFixed_def using small by (simp add: Let_def)
  then have "toFixed 2 (Finite x) = (if x < 0 then ''-'' else []) @ pre @ CHR ''.'' # [a, b]"
    unfolding f .
  then show ?thesis
    using isFixed2_shape [OF p d] by simp
qed

lemma group3_props:
  "ds \<noteq> [] \<Longrightarrow> \<forall>c \<in> set ds. isDigit c \<Longrightarrow>
   isGroupedRev (rev (group3 ds)) \<and> group3 ds \<noteq> [] \<and>
   (\<forall>c \<in> set (group3 ds). isDigit c \<or> c = CHR ''.'')"
proof (induction ds rule: group3.induct)
  case (1 ds)
  show ?case
  proof (cases "length ds \<le> 3")
    case True
    then have g: "group3 ds = ds"
      by (simp add: group3.simps [of ds])
    from "1.prems"(1) have "length ds \<noteq> 0" by simp
    with True have "length ds = 1 \<or> length ds = 2 \<or> length ds = 3"
      by arith
    then have "isGroupedRev (rev ds)"
    proof (elim disjE)
      assume "length ds = 1"
      then obtain a where "ds = [a]" by (cases ds) auto
      with "1.prems"(2) show ?thesis by simp
    next
      assume "length ds = 2"
      then obtain a b where "ds = [a, b]" using length_two by blast
      with "1.prems"(2) show ?thesis by simp
    next
      assume "length ds = 3"
      then obtain a b c where "ds = [a, b, c]" using length_three by blast
      with "1.prems"(2) show ?thesis by simp
    qed
    with g "1.prems" show ?thesis by simp
  next
    case False
    let ?h = "take (length ds - 3) ds"
    have g: "group3 ds = group3 ?h @ CHR ''.'' # drop (length ds - 3) ds"
      using False by (simp add: group3.simps [of ds])
    have h: "?h \<noteq> []" "\<forall>c \<in> set ?h. isDigit c"
      using False "1.prems"(2) by (auto dest: in_set_takeD)
    note ih = "1.IH" [OF False h]
    have "length (drop (length ds - 3) ds) = 3"
      using False by simp
    then obtain a b c where t: "drop (length ds - 3) ds = [a, b, c]"
      using length_three by blast
    have "a \<in> set ds" "b \<in> set ds" "c \<in> set ds"
      using in_set_dropD [of a "length ds - 3" ds] in_set_dropD [of b "length ds - 3" ds]
        in_set_dropD [of c "length ds - 3" ds]
      unfolding t by simp_all
    with "1.prems"(2) have d: "isDigit a" "isDigit b" "isDigit c" by blast+
    show ?thesis
      unfolding g t using ih d by auto
  qed
qed

lemma isEuroAmount_shape:
  assumes "isGroupedRev (rev g)" "g \<noteq> []" "\<forall>c \<in> set g. isDigit c \<or> c = CHR ''.''"
    "isDigit a" "isDigit b"
  shows "isEuroAmount (g @ CHR '','' # a # b # euroSuffix)"
    "isEuroAmount (CHR ''-'' # g @ CHR '','' # a # b # euroSuffix)"
proof -
  have nc: "\<forall>c \<in> set g. c \<noteq> CHR '',''"
    using assms(3) not_digit_chars(2) by auto
  have tw: "takeWhile (\<lambda>c. c \<noteq> CHR '','') (g @ CHR '','' # a # b # euroSuffix) = g"
    using nc by (simp add: takeWhile_append2)
  have dw: "dropWhile (\<lambda>c. c \<noteq> CHR '','') (g @ CHR '','' # a # b # euroSuffix) =
      CHR '','' # a # b # euroSuffix"
    using nc by (simp add: dropWhile_append2)
  have hd: "hd (g @ CHR '','' # a # b # euroSuffix) \<noteq> CHR ''-''"
    using assms(2,3) not_digit_chars(3) by (cases g) auto
  let ?s = "g @ CHR '','' # a # b # euroSuffix"
  have u: "(if ?s \<noteq> [] \<and> hd ?s = CHR ''-'' then tl ?s else ?s) = ?s"
    using hd by simp
  show "isEuroAmount (g @ CHR '','' # a # b # euroSuffix)"
    unfolding isEuroAmount_def Let_def u tw dw using assms(1,4,5)
    by simp
  show "isEuroAmount (CHR ''-'' # g @ CHR '','' # a # b # euroSuffix)"
    unfolding isEuroAmount_def Let_def using assms(1,4,5)
    by (simp add: tw dw del: takeWhile_append dropWhile_append)
qed

lemma formatCurrency_shape: "isEuroAmount (formatCurrency (Finite x))"
proof -
  let ?n = "roundHalfUp (\<bar>x\<bar> * 100)"
  let ?g = "group3 (digitsOf (?n div 100))"
  let ?a = "char_of (48 + ?n mod 100 div 10) :: char"
  let ?b = "char_of (48 + ?n mod 100 mod 10) :: char"
  have g: "isGroupedRev (rev ?g)" "?g \<noteq> []" "\<forall>c \<in> set ?g. isDigit c \<or> c = CHR ''.''"
    using group3_props [of "digitsOf (?n div 100)"] digitsOf_nonempty digitsOf_digits
    by blast+
  have d: "isDigit ?a" "isDigit ?b"
    by (simp_all add: isDigit_char_of)
  have "formatCurrency (Finite x) =
      (if x < 0 then ''-'' else []) @ ?g @ CHR '','' # ?a # ?b # euroSuffix"
    using digitsOf_two [of "?n mod 100"] by (simp add: formatCurrency_def Let_def)
  then have eq: "formatCurrency (Finite x) =
      (if x < 0 then ''-'' else []) @ ?g @ CHR '','' # ?a # ?b # euroSuffix" .
  show ?thesis
  proof (cases "x < 0")
    case True
    with eq have "formatCurrency (Finite x) = CHR ''-'' # ?g @ CHR '','' # ?a # ?b # euroSuffix"
      by (simp only: if_True append_Cons append_Nil)
    then show ?thesis
      using isEuroAmount_shape(2) [OF g d] by (simp only:)
  next
    case False
    with eq have "formatCurrency (Finite x) = ?g @ CHR '','' # ?a # ?b # euroSuffix"
      by (simp only: if_False append_Nil)
    then show ?thesis
      using isEuroAmount_shape(1) [OF g d] by (simp only:)
  qed
qed

lemma parseFloat_examples:
  "parseFloat rnd ''2'' = rnd 2" "parseFloat rnd ''10.50'' = rnd (21 / 2)"
  "parseFloat rnd ''abc'' = NaN"
  by (simp_all add: parseFloat_def strUnsignedDecimalLiteral_def trimStart_examples
        trimStart_empty isDigit_def
      digitsValue_def exponentPart_def scale10_def)

text \<open>
  Claim C4, as the code has it. In the rendered table, for every service entry: hours
  that do not parse as a finite number render as the dash \<open>-\<close>; parseable hours of
  magnitude below \<open>10\<^sup>2\<^sup>1\<close> render with exactly two decimals (digits, a point, two
  digits, after a minus sign when negative); a price that does not parse renders as the
  dash; a parseable price renders as a de-DE euro amount with two decimals (groups of
  three digits separated by full stops, a comma, two digits, a no-break space and the
  euro sign). For two entries with hours \<open>2\<close> and \<open>abc\<close> and rates \<open>10.50\<close> and the empty
  string, where 2 and 10.5 are binary64 values that rounding leaves alone, the total
  of hours prints as \<open>2.00\<close>, the total amount as \<open>10,50\<close> with the euro suffix, and the
  second row shows dashes for hours and price.
\<close>

theorem table_cell_texts:
  "(\<not> isFinite (parseFloat rnd (hours service)) \<longrightarrow> hoursText rnd service = ''-'') \<and>
   (\<forall>x. parseFloat rnd (hours service) = Finite x \<and> \<bar>x\<bar> < 10 ^ 21 \<longrightarrow>
      hoursText rnd service = toFixed 2 (Finite x) \<and> isFixed2 (hoursText rnd service)) \<and>
   (\<not> isFinite (parseFloat rnd (rate service)) \<longrightarrow> rateText rnd service = ''-'') \<and>
   (\<forall>x. parseFloat rnd (rate service) = Finite x \<longrightarrow>
      rateText rnd service = formatCurrency (Finite x) \<and> isEuroAmount (rateText rnd service)) \<and>
   (\<forall>s \<in> set (services st). \<exists>y.
      Text (hoursText (round64 lib) s) (marginX + dateWidth + descWidth lib + 3) (y + 5)
        \<in> set (renderPdf lib st) \<and>
      Text (rateText (round64 lib) s)
        (marginX + dateWidth + descWidth lib + hoursWidth + 3) (y + 5)
        \<in> set (renderPdf lib st)) \<and>
   (hours e1 = ''2'' \<and> rate e1 = ''10.50'' \<and> hours e2 = ''abc'' \<and> rate e2 = [] \<and>
    rnd 2 = Finite 2 \<and> rnd (21 / 2) = Finite (21 / 2) \<longrightarrow>
      toFixed 2 (totalHours rnd [e1, e2]) = ''2.00'' \<and>
      formatCurrency (totalAmount rnd [e1, e2]) = ''10,50'' @ euroSuffix \<and>
      hoursText rnd e1 = ''2.00'' \<and> rateText rnd e1 = ''10,50'' @ euroSuffix \<and>
      hoursText rnd e2 = ''-'' \<and> rateText rnd e2 = ''-'')"
proof -
  have h1: "\<not> isFinite (parseFloat rnd (hours service)) \<longrightarrow> hoursText rnd service = ''-''"
    by (simp add: hoursText_def)
  have h2: "\<forall>x. parseFloat rnd (hours service) = Finite x \<and> \<bar>x\<bar> < 10 ^ 21 \<longrightarrow>
      hoursText rnd service = toFixed 2 (Finite x) \<and> isFixed2 (hoursText rnd service)"
    using toFixed_two_decimals by (simp add: hoursText_def)
  have r1: "\<not> isFinite (parseFloat rnd (rate service)) \<longrightarrow> rateText rnd service = ''-''"
    by (simp add: rateText_def)
  have r2: "\<forall>x. parseFloat rnd (rate service) = Finite x \<longrightarrow>
      rateText rnd service = formatCurrency (Finite x) \<and> isEuroAmount (rateText rnd service)"
    using formatCurrency_shape by (simp add: rateText_def)
  have doc: "\<forall>s \<in> set (services st). \<exists>y.
      Text (hoursText (round64 lib) s) (marginX + dateWidth + descWidth lib + 3) (y + 5)
        \<in> set (renderPdf lib st) \<and>
      Text (rateText (round64 lib) s)
        (marginX + dateWidth + descWidth lib + hoursWidth + 3) (y + 5)
        \<in> set (renderPdf lib st)"
  proof
    fix s assume "s \<in> set (services st)"
    from rows_in_pdf [OF this, of lib] obtain y
      where "set (rowOps lib s y) \<subseteq> set (renderPdf lib st)" by blast
    then have "Text (hoursText (round64 lib) s)
          (marginX + dateWidth + descWidth lib + 3) (y + 5) \<in> set (renderPdf lib st) \<and>
        Text (rateText (round64 lib) s)
          (marginX + dateWidth + descWidth lib + hoursWidth + 3) (y + 5)
          \<in> set (renderPdf lib st)"
      by (simp add: rowOps_eq)
    then show "\<exists>y. Text (hoursText (round64 lib) s)
          (marginX + dateWidth + descWidth lib + 3) (y + 5) \<in> set (renderPdf lib st) \<and>
        Text (rateText (round64 lib) s)
          (marginX + dateWidth + descWidth lib + hoursWidth + 3) (y + 5)
          \<in> set (renderPdf lib st)"
      by blast
  qed
  have ex: "hours e1 = ''2'' \<and> rate e1 = ''10.50'' \<and> hours e2 = ''abc'' \<and> rate e2 = [] \<and>
    rnd 2 = Finite 2 \<and> rnd (21 / 2) = Finite (21 / 2) \<longrightarrow>
      toFixed 2 (totalHours rnd [e1, e2]) = ''2.00'' \<and>
      formatCurrency (totalAmount rnd [e1, e2]) = ''10,50'' @ euroSuffix \<and>
      hoursText rnd e1 = ''2.00'' \<and> rateText rnd e1 = ''10,50'' @ euroSuffix \<and>
      hoursText rnd e2 = ''-'' \<and> rateText rnd e2 = ''-''"
  proof (intro impI, elim conjE)
    assume a: "hours e1 = ''2''" "rate e1 = ''10.50''" "hours e2 = ''abc''" "rate e2 = []"
      and r: "rnd 2 = Finite 2" "rnd (21 / 2) = Finite (21 / 2)"
    have th: "totalHours rnd [e1, e2] = Finite 2"
      by (simp add: totalHours_def a parseFloat_examples r)
    have ta: "totalAmount rnd [e1, e2] = Finite (21 / 2)"
      by (simp add: totalAmount_def a parseFloat_examples parseFloat_empty r)
    have "hoursText rnd e1 = ''2.00''"
      by (simp add: hoursText_def a parseFloat_examples r toFixed_2)
    moreover have "rateText rnd e1 = ''10,50'' @ euroSuffix"
      by (simp add: rateText_def a parseFloat_examples r formatCurrency_10_50)
    moreover have "hoursText rnd e2 = ''-''"
      by (simp add: hoursText_def a parseFloat_examples)
    moreover have "rateText rnd e2 = ''-''"
      by (simp add: rateText_def a parseFloat_empty)
    ultimately show "toFixed 2 (totalHours rnd [e1, e2]) = ''2.00'' \<and>
      formatCurrency (totalAmount rnd [e1, e2]) = ''10,50'' @ euroSuffix \<and>
      hoursText rnd e1 = ''2.00'' \<and> rateText rnd e1 = ''10,50'' @ euroSuffix \<and>
      hoursText rnd e2 = ''-'' \<and> rateText rnd e2 = ''-''"
      unfolding th ta by (simp add: toFixed_2 formatCurrency_10_50)
  qed
  from h1 h2 r1 r2 doc ex show ?thesis by blast
qed

theorem table_cell_texts_witness:
  "parseFloat Finite (hours (createEmptyService ''a''\<lparr>hours := ''2'', rate := ''10.50''\<rparr>)) =
     Finite 2 \<and>
   isFixed2 (hoursText Finite (createEmptyService ''a''\<lparr>hours := ''2'', rate := ''10.50''\<rparr>)) \<and>
   isEuroAmount (rateText Finite (createEmptyService ''a''\<lparr>hours := ''2'', rate := ''10.50''\<rparr>)) \<and>
   \<not> isFinite (parseFloat Finite (hours (createEmptyService ''b''\<lparr>hours := ''abc''\<rparr>))) \<and>
   toFixed 2 (totalHours Finite
     [createEmptyService ''a''\<lparr>hours := ''2'', rate := ''10.50''\<rparr>,
      createEmptyService ''b''\<lparr>hours := ''abc''\<rparr>]) = ''2.00'' \<and>
   formatCurrency (totalAmount Finite
     [createEmptyService ''a''\<lparr>hours := ''2'', rate := ''10.50''\<rparr>,
      createEmptyService ''b''\<lparr>hours := ''abc''\<rparr>]) = ''10,50'' @ euroSuffix \<and>
   hoursText Finite (createEmptyService ''b''\<lparr>hours := ''abc''\<rparr>) = ''-'' \<and>
   rateText Finite (createEmptyService ''b''\<lparr>hours := ''abc''\<rparr>) = ''-''"
proof -
  let ?a = "createEmptyService ''a''\<lparr>hours := ''2'', rate := ''10.50''\<rparr>"
  let ?b = "createEmptyService ''b''\<lparr>hours := ''abc''\<rparr>"
  have f: "hours ?a = ''2''" "rate ?a = ''10.50''" "hours ?b = ''abc''" "rate ?b = []"
    by (simp_all add: createEmptyService_def)
  have p: "parseFloat Finite (hours ?a) = Finite 2"
    "parseFloat Finite (rate ?a) = Finite (21 / 2)"
    "\<not> isFinite (parseFloat Finite (hours ?b))"
    by (simp_all add: f parseFloat_examples)
  have small: "\<bar>2 :: rat\<bar> < 10 ^ 21" by simp
  note t = table_cell_texts [of Finite ?a exampleState exampleLib ?a ?b]
  from t p(1) small have 1: "isFixed2 (hoursText Finite ?a)" by blast
  from t p(2) have 2: "isEuroAmount (rateText Finite ?a)" by blast
  from t f have 3: "toFixed 2 (totalHours Finite [?a, ?b]) = ''2.00'' \<and>
      formatCurrency (totalAmount Finite [?a, ?b]) = ''10,50'' @ euroSuffix \<and>
      hoursText Finite ?b = ''-'' \<and> rateText Finite ?b = ''-''"
    by blast
  from p(1) 1 2 p(3) 3 show ?thesis by blast
qed

text \<open>
  The claim as the specification words it, that parseable hours always render with
  exactly two decimals, fails for hours of \<open>1e21\<close>: the value is finite, and \<open>toFixed\<close>
  prints a value of at least \<open>10\<^sup>2\<^sup>1\<close> in exponential form, here \<open>1e+21\<close>.
\<close>

theorem hours_two_decimals_counterexample:
  "isFinite (parseFloat Finite (hours (createEmptyService ''a''\<lparr>hours := ''1e21''\<rparr>))) \<and>
   hoursText Finite (createEmptyService ''a''\<lparr>hours := ''1e21''\<rparr>) = ''1e+21'' \<and>
   \<not> isFixed2 (hoursText Finite (createEmptyService ''a''\<lparr>hours := ''1e21''\<rparr>))"
proof -
  have h: "hoursText Finite (createEmptyService ''a''\<lparr>hours := ''1e21''\<rparr>) = ''1e+21''"
    by (simp add: hoursText_def createEmptyService_def parseFloat_1e21 toFixed_1e21)
  have n: "\<not> isFixed2 ''1e+21''"
    by (simp add: isFixed2_def isDigit_def)
  show ?thesis
    unfolding h using n by (simp add: createEmptyService_def parseFloat_1e21)
qed

subsection \<open>The list of service entries\<close>

lemma filter_id_le_one:
  "distinct (map f xs) \<Longrightarrow> length (filter (\<lambda>x. f x = i) xs) \<le> 1"
proof (induction xs)
  case Nil
  show ?case by simp
next
  case (Cons x xs)
  show ?case
  proof (cases "f x = i")
    case True
    from Cons.prems have "f x \<notin> f ` set xs" by simp
    with True have "\<forall>y \<in> set xs. f y \<noteq> i" by blast
    then have "filter (\<lambda>x. f x = i) xs = []" by (simp add: filter_empty_conv)
    with True show ?thesis by simp
  next
    case False
    with Cons show ?thesis by simp
  qed
qed

lemma filter_other_length:
  assumes "distinct (map f xs)" "2 \<le> length xs"
  shows "1 \<le> length (filter (\<lambda>x. f x \<noteq> i) xs)"
proof -
  have "length xs = length (filter (\<lambda>x. f x = i) xs) + length (filter (\<lambda>x. f x \<noteq> i) xs)"
    using sum_length_filter_compl [of "\<lambda>x. f x = i" xs] by simp
  with filter_id_le_one [OF assms(1), of i] assms(2) show ?thesis by arith
qed

lemma setServiceField_id: "id' (setServiceField field v s) = id' s"
  by (cases field) simp_all

lemma handleServiceChange_ids:
  "map id' (services (handleServiceChange i field v st)) = map id' (services st)"
  by (simp add: handleServiceChange_def setServiceField_id)

lemma removeService_ok: "servicesOk st \<Longrightarrow> servicesOk (removeService i st)"
proof -
  assume ok: "servicesOk st"
  show ?thesis
  proof (cases "length (services st) = 1")
    case True
    with ok show ?thesis by (simp add: servicesOk_def removeService_def)
  next
    case False
    with ok have "2 \<le> length (services st)" by (simp add: servicesOk_def)
    with ok filter_other_length [of id' "services st" i] show ?thesis
      by (simp add: servicesOk_def removeService_def distinct_map_filter)
  qed
qed

lemma step_ok: "servicesOk st \<Longrightarrow> isFresh st a \<Longrightarrow> servicesOk (step lib st a)"
proof (cases a)
  case (ServiceChange i field v)
  assume "servicesOk st"
  then show ?thesis
    using handleServiceChange_ids [of i field v st] length_map [of id' "services st"]
      length_map [of id' "services (handleServiceChange i field v st)"]
    by (simp add: servicesOk_def ServiceChange)
next
  case (AddService uuid)
  assume "servicesOk st" "isFresh st a"
  then show ?thesis
    by (simp add: servicesOk_def AddService addService_def createEmptyService_def)
next
  case (RemoveService i)
  assume "servicesOk st"
  then show ?thesis by (simp add: RemoveService removeService_ok)
qed (simp_all add: servicesOk_def handleCustomerChange_def handleOrderChange_def
    handleExportPdf_def handleAddSecondTechnician_def handleRemoveSecondTechnician_def)

lemma run_ok: "servicesOk st \<Longrightarrow> freshIds lib st acts \<Longrightarrow> servicesOk (run lib st acts)"
proof (induction acts arbitrary: st)
  case Nil
  then show ?case by (simp add: run_def)
next
  case (Cons a acts)
  from Cons.prems have "servicesOk (step lib st a)" "freshIds lib (step lib st a) acts"
    by (simp_all add: step_ok)
  from Cons.IH [OF this] show ?case by (simp add: run_def)
qed

lemma initialState_ok: "servicesOk (initialState y u)"
  by (simp add: servicesOk_def initialState_def)

text \<open>
  Claim C3. In every state that the form reaches from its initial state, where every
  id drawn for a new entry is one that no entry of the list has, the list of service
  entries has at least one entry (and its ids are distinct), and every operation
  preserves this. Removing an entry by id changes nothing when exactly one entry
  remains; adding appends one entry at the end; a field update changes neither the
  length nor the ids; removing keeps the surviving entries in their order and removes
  only entries with the given id; and no other operation touches the list.
\<close>

theorem services_never_empty:
  "(freshIds lib (initialState thisYear uuid0) acts \<longrightarrow>
      1 \<le> length (services (run lib (initialState thisYear uuid0) acts)) \<and>
      distinct (map id' (services (run lib (initialState thisYear uuid0) acts)))) \<and>
   (servicesOk st \<and> isFresh st a \<longrightarrow> servicesOk (step lib st a)) \<and>
   (length (services st) = 1 \<longrightarrow> removeService i st = st) \<and>
   services (addService uuid st) = services st @ [createEmptyService uuid] \<and>
   length (services (addService uuid st)) = length (services st) + 1 \<and>
   length (services (handleServiceChange i field v st)) = length (services st) \<and>
   map id' (services (handleServiceChange i field v st)) = map id' (services st) \<and>
   subseq (services (removeService i st)) (services st) \<and>
   (\<forall>s \<in> set (services st). id' s \<noteq> i \<longrightarrow> s \<in> set (services (removeService i st))) \<and>
   prefix (services st) (services (addService uuid st)) \<and>
   ((case a of ServiceChange j f w \<Rightarrow> False | AddService u \<Rightarrow> False
             | RemoveService j \<Rightarrow> False | _ \<Rightarrow> True) \<longrightarrow>
      services (step lib st a) = services st)"
proof -
  have reach: "freshIds lib (initialState thisYear uuid0) acts \<longrightarrow>
      1 \<le> length (services (run lib (initialState thisYear uuid0) acts)) \<and>
      distinct (map id' (services (run lib (initialState thisYear uuid0) acts)))"
    using run_ok [OF initialState_ok, of lib thisYear uuid0 acts]
    by (simp add: servicesOk_def)
  have pres: "servicesOk st \<and> isFresh st a \<longrightarrow> servicesOk (step lib st a)"
    using step_ok by blast
  have noop: "length (services st) = 1 \<longrightarrow> removeService i st = st"
    by (simp add: removeService_def)
  have add: "services (addService uuid st) = services st @ [createEmptyService uuid]"
    "length (services (addService uuid st)) = length (services st) + 1"
    "prefix (services st) (services (addService uuid st))"
    by (simp_all add: addService_def)
  have upd: "length (services (handleServiceChange i field v st)) = length (services st)"
    by (simp add: handleServiceChange_def)
  have sub: "subseq (services (removeService i st)) (services st)"
    by (simp add: removeService_def)
  have keep: "\<forall>s \<in> set (services st). id' s \<noteq> i \<longrightarrow> s \<in> set (services (removeService i st))"
    by (simp add: removeService_def)
  have other: "(case a of ServiceChange j f w \<Rightarrow> False | AddService u \<Rightarrow> False
             | RemoveService j \<Rightarrow> False | _ \<Rightarrow> True) \<longrightarrow>
      services (step lib st a) = services st"
    by (cases a) (simp_all add: handleCustomerChange_def handleOrderChange_def
        handleExportPdf_def handleAddSecondTechnician_def handleRemoveSecondTechnician_def)
  from reach pres noop add upd handleServiceChange_ids [of i field v st] sub keep other
  show ?thesis by blast
qed

theorem services_never_empty_witness:
  "freshIds exampleLib (initialState ''2025'' ''id-1'')
     [AddService ''id-2'', RemoveService ''id-1'', RemoveService ''id-2''] \<and>
   services (run exampleLib (initialState ''2025'' ''id-1'')
     [AddService ''id-2'', RemoveService ''id-1'', RemoveService ''id-2'']) =
     [createEmptyService ''id-2''] \<and>
   1 \<le> length (services (run exampleLib (initialState ''2025'' ''id-1'')
     [AddService ''id-2'', RemoveService ''id-1'', RemoveService ''id-2'']))"
proof -
  let ?acts = "[AddService ''id-2'', RemoveService ''id-1'', RemoveService ''id-2'']"
  have f: "freshIds exampleLib (initialState ''2025'' ''id-1'') ?acts"
    by (simp add: initialState_def addService_def createEmptyService_def)
  have r: "services (run exampleLib (initialState ''2025'' ''id-1'') ?acts) =
      [createEmptyService ''id-2'']"
    by (simp add: run_def initialState_def addService_def removeService_def
        createEmptyService_def)
  from services_never_empty [of exampleLib "''2025''" "''id-1''" ?acts] f
  have "1 \<le> length (services (run exampleLib (initialState ''2025'' ''id-1'') ?acts))"
    by blast
  with f r show ?thesis by blast
qed

section \<open>Properties of the signature pad\<close>

lemma isBlank_iff:
  "isBlank bg c = (\<forall>i < width c. \<forall>j < height c. bitmap c (i, j) = Css bg)"
  by (auto simp add: isBlank_def list_all_iff)

lemma centre_nonneg: "0 \<le> fst (centre px)" "0 \<le> snd (centre px)"
  by (simp_all add: centre_def)

lemma resizeCanvas_fields:
  "width (resizeCanvas theme w h dpr) = nat \<lfloor>w * (if dpr \<noteq> 0 then dpr else 1)\<rfloor>"
  "height (resizeCanvas theme w h dpr) = nat \<lfloor>h * (if dpr \<noteq> 0 then dpr else 1)\<rfloor>"
  "scale (resizeCanvas theme w h dpr) = (if dpr \<noteq> 0 then dpr else 1)"
  by (simp_all add: resizeCanvas_def sizedCanvas_def fillRect_def clearRect_def Let_def)

lemma below_floor:
  assumes "i < nat \<lfloor>q :: rat\<rfloor>"
  shows "of_nat i + 1 / 2 \<le> q"
proof -
  from assms have "int i + 1 \<le> \<lfloor>q\<rfloor>" by linarith
  then have "of_int (int i + 1) \<le> q" by (simp only: le_floor_iff)
  then show ?thesis by simp
qed

lemma resizeCanvas_blank: "isBlank (getBackgroundColor theme) (resizeCanvas theme w h dpr)"
proof -
  let ?r = "if dpr \<noteq> 0 then dpr else 1"
  have "bitmap (resizeCanvas theme w h dpr) (i, j) = Css (getBackgroundColor theme)"
    if "i < nat \<lfloor>w * ?r\<rfloor>" "j < nat \<lfloor>h * ?r\<rfloor>" for i j
  proof -
    from that have "inRect ?r 0 0 w h (i, j)"
      using below_floor [of i "w * ?r"] below_floor [of j "h * ?r"]
      by (simp add: inRect_def centre_def)
    then show ?thesis
      by (simp add: resizeCanvas_def sizedCanvas_def fillRect_def clearRect_def Let_def)
  qed
  then show ?thesis
    by (simp add: isBlank_iff resizeCanvas_fields)
qed

lemma handleClear_canvas:
  assumes "canvas pad = Some c"
  shows "handleClear theme hasOnChange pad =
     (pad\<lparr>canvas :=
            Some (fillRect
                    ((clearRect c 0 0 (of_nat (width c)) (of_nat (height c)))
                       \<lparr>fillStyle := getBackgroundColor theme\<rparr>)
                    0 0 (of_nat (width c)) (of_nat (height c)))\<rparr>,
      if hasOnChange then Some None else None)"
  using assms by (simp add: handleClear_def)

lemma cleared_blank:
  assumes "1 \<le> scale c"
  shows "isBlank (getBackgroundColor theme)
     (fillRect ((clearRect c 0 0 (of_nat (width c)) (of_nat (height c)))
                  \<lparr>fillStyle := getBackgroundColor theme\<rparr>)
        0 0 (of_nat (width c)) (of_nat (height c)))"
proof -
  have "inRect (scale c) 0 0 (of_nat (width c)) (of_nat (height c)) (i, j)"
    if "i < width c" "j < height c" for i j
  proof -
    from that have a: "of_nat i + 1 / 2 \<le> (of_nat (width c) :: rat)"
      "of_nat j + 1 / 2 \<le> (of_nat (height c) :: rat)"
      using below_floor [of i "of_nat (width c)"] below_floor [of j "of_nat (height c)"]
      by simp_all
    have b: "(of_nat (width c) :: rat) * 1 \<le> of_nat (width c) * scale c"
      "(of_nat (height c) :: rat) * 1 \<le> of_nat (height c) * scale c"
      using assms by (intro mult_left_mono; simp)+
    have c1: "of_nat i + 1 / 2 \<le> of_nat (width c) * scale c"
      using a(1) b(1) by linarith
    have c2: "of_nat j + 1 / 2 \<le> of_nat (height c) * scale c"
      using a(2) b(2) by linarith
    show ?thesis
      by (simp add: inRect_def centre_def c1 c2)
  qed
  then show ?thesis
    by (simp add: isBlank_iff fillRect_def clearRect_def)
qed

lemma stopDrawing_canvas:
  assumes "canvas pad = Some c"
  shows "stopDrawing toDataURL True pad = (pad\<lparr>drawing := False\<rparr>, Some (Some (toDataURL c)))"
  using assms by (simp add: stopDrawing_def emitChange_def)

text \<open>
  What \<open>stopDrawing\<close> does by design. On a mounted pad that was given \<open>onChange\<close>,
  every pointer-up, pointer-leave and pointer-cancel event hands the encoding of the
  current raster to the form, whether or not a gesture was under way: the stored
  signature becomes that image. After a clear has made the stored signature absent, the
  next such event replaces it with the image of the raster as the clear left it, which
  is blank in the background colour when the context scales by at least 1; and on a pad
  that has only just been mounted the image stored is that of a blank raster.
\<close>

lemma stopDrawing_exports:
  "(canvas pad = Some c \<longrightarrow>
      stopDrawing toDataURL True pad = (pad\<lparr>drawing := False\<rparr>, Some (Some (toDataURL c))) \<and>
      technicianSignature (storeTechnicianSignature (snd (stopDrawing toDataURL True pad)) st) =
        Some (toDataURL c) \<and>
      customerSignature (storeCustomerSignature (snd (stopDrawing toDataURL True pad)) st) =
        Some (toDataURL c)) \<and>
   (canvas pad = Some c \<longrightarrow>
      (\<exists>c'. canvas (fst (handleClear theme True pad)) = Some c' \<and>
            technicianSignature
              (storeTechnicianSignature (snd (handleClear theme True pad)) st) = None \<and>
            technicianSignature
              (storeTechnicianSignature
                 (snd (stopDrawing toDataURL True (fst (handleClear theme True pad))))
                 (storeTechnicianSignature (snd (handleClear theme True pad)) st)) =
              Some (toDataURL c') \<and>
            (1 \<le> scale c \<longrightarrow> isBlank (getBackgroundColor theme) c'))) \<and>
   isBlank (getBackgroundColor theme) (resizeCanvas theme w h dpr) \<and>
   technicianSignature
     (storeTechnicianSignature (snd (stopDrawing toDataURL True (mountedPad theme w h dpr))) st) =
     Some (toDataURL (resizeCanvas theme w h dpr))"
proof -
  have stop: "canvas pad = Some c \<longrightarrow>
      stopDrawing toDataURL True pad = (pad\<lparr>drawing := False\<rparr>, Some (Some (toDataURL c))) \<and>
      technicianSignature (storeTechnicianSignature (snd (stopDrawing toDataURL True pad)) st) =
        Some (toDataURL c) \<and>
      customerSignature (storeCustomerSignature (snd (stopDrawing toDataURL True pad)) st) =
        Some (toDataURL c)"
    by (simp add: stopDrawing_canvas storeTechnicianSignature_def storeCustomerSignature_def)
  have clear: "canvas pad = Some c \<longrightarrow>
      (\<exists>c'. canvas (fst (handleClear theme True pad)) = Some c' \<and>
            technicianSignature
              (storeTechnicianSignature (snd (handleClear theme True pad)) st) = None \<and>
            technicianSignature
              (storeTechnicianSignature
                 (snd (stopDrawing toDataURL True (fst (handleClear theme True pad))))
                 (storeTechnicianSignature (snd (handleClear theme True pad)) st)) =
              Some (toDataURL c') \<and>
            (1 \<le> scale c \<longrightarrow> isBlank (getBackgroundColor theme) c'))"
  proof
    assume c: "canvas pad = Some c"
    let ?c' = "fillRect ((clearRect c 0 0 (of_nat (width c)) (of_nat (height c)))
                  \<lparr>fillStyle := getBackgroundColor theme\<rparr>)
               0 0 (of_nat (width c)) (of_nat (height c))"
    have 1: "canvas (fst (handleClear theme True pad)) = Some ?c'"
      by (simp add: handleClear_canvas [OF c])
    have 2: "technicianSignature
        (storeTechnicianSignature (snd (handleClear theme True pad)) st) = None"
      by (simp add: handleClear_canvas [OF c] storeTechnicianSignature_def)
    have 3: "technicianSignature
        (storeTechnicianSignature
           (snd (stopDrawing toDataURL True (fst (handleClear theme True pad))))
           (storeTechnicianSignature (snd (handleClear theme True pad)) st)) =
        Some (toDataURL ?c')"
      by (simp add: stopDrawing_canvas [OF 1] storeTechnicianSignature_def)
    have 4: "1 \<le> scale c \<longrightarrow> isBlank (getBackgroundColor theme) ?c'"
      using cleared_blank by blast
    from 1 2 3 4 show "\<exists>c'. canvas (fst (handleClear theme True pad)) = Some c' \<and>
            technicianSignature
              (storeTechnicianSignature (snd (handleClear theme True pad)) st) = None \<and>
            technicianSignature
              (storeTechnicianSignature
                 (snd (stopDrawing toDataURL True (fst (handleClear theme True pad))))
                 (storeTechnicianSignature (snd (handleClear theme True pad)) st)) =
              Some (toDataURL c') \<and>
            (1 \<le> scale c \<longrightarrow> isBlank (getBackgroundColor theme) c')"
      by blast
  qed
  have fresh: "technicianSignature
     (storeTechnicianSignature (snd (stopDrawing toDataURL True (mountedPad theme w h dpr))) st) =
     Some (toDataURL (resizeCanvas theme w h dpr))"
    by (simp add: stopDrawing_def emitChange_def mountedPad_def storeTechnicianSignature_def)
  from stop clear resizeCanvas_blank [of theme w h dpr] fresh show ?thesis
    by blast
qed

text \<open>
  What \<open>handleClear\<close> achieves when the context scales by at least 1 (a device pixel
  ratio of 1 or more): the raster is blank in the background colour, \<open>onChange(null)\<close>
  is called, and the stored signature is absent.
\<close>

lemma handleClear_resets_at_scale_ge_1:
  assumes "canvas pad = Some c" "1 \<le> scale c"
  shows "\<exists>c'. canvas (fst (handleClear theme True pad)) = Some c' \<and>
           isBlank (getBackgroundColor theme) c' \<and>
           snd (handleClear theme True pad) = Some None \<and>
           technicianSignature
             (storeTechnicianSignature (snd (handleClear theme True pad)) st) = None \<and>
           customerSignature
             (storeCustomerSignature (snd (handleClear theme True pad)) st) = None"
  using cleared_blank [OF assms(2), of theme]
  by (simp add: handleClear_canvas [OF assms(1)] storeTechnicianSignature_def
      storeCustomerSignature_def)

lemma strokeAtLowRatio_canvas:
  "\<exists>c. canvas strokeAtLowRatio = Some c \<and> width c = 200 \<and> height c = 100 \<and>
       scale c = 1 / 2 \<and> bitmap c (152, 77) = Css ''#0f172a''"
  by (simp add: strokeAtLowRatio_def handlePointerMove_def handlePointerDown_def mountedPad_def
      resizeCanvas_def sizedCanvas_def fillRect_def clearRect_def stroke_def lineTo_def moveTo_def
      beginPath_def segments_def distSq_def centre_def getStrokeColor_def exampleTheme_def
      or_else_def Let_def floor_numeral_div)

text \<open>
  Claim C8 on a page zoomed out. At a device pixel ratio of 1/2 the raster is 200 by 100
  pixels and the context scales by 1/2, so the rectangle \<open>(0, 0, canvas.width,
  canvas.height)\<close> that \<open>handleClear\<close> clears and fills covers the device pixels up to
  (100, 50) only. After a stroke through the pixel (152, 77), a pointer-up and a clear,
  \<open>onChange(null)\<close> has been called, yet that pixel still holds the stroke colour: the
  raster is not blank.
\<close>

theorem clear_leaves_stroke_at_low_ratio:
  "snd (handleClear exampleTheme True (fst (stopDrawing toDataURL True strokeAtLowRatio))) =
     Some None \<and>
   (case canvas (fst (handleClear exampleTheme True
                        (fst (stopDrawing toDataURL True strokeAtLowRatio)))) of
      None \<Rightarrow> False
    | Some c \<Rightarrow>
        width c = 200 \<and> height c = 100 \<and> bitmap c (152, 77) = Css ''#0f172a'' \<and>
        \<not> isBlank (getBackgroundColor exampleTheme) c)"
proof -
  from strokeAtLowRatio_canvas obtain c
    where c: "canvas strokeAtLowRatio = Some c" and w: "width c = 200" and h: "height c = 100"
      and s: "scale c = 1 / 2" and b: "bitmap c (152, 77) = Css ''#0f172a''"
    by blast
  let ?pad = "fst (stopDrawing toDataURL True strokeAtLowRatio)"
  have pc: "canvas ?pad = Some c"
    by (simp add: stopDrawing_def c)
  let ?c' = "fillRect ((clearRect c 0 0 (of_nat (width c)) (of_nat (height c)))
                \<lparr>fillStyle := getBackgroundColor exampleTheme\<rparr>)
             0 0 (of_nat (width c)) (of_nat (height c))"
  have out: "\<not> inRect (scale c) 0 0 (of_nat (width c)) (of_nat (height c)) (152, 77)"
    by (simp add: inRect_def centre_def w h s)
  have b': "bitmap ?c' (152, 77) = Css ''#0f172a''"
    using out by (simp add: fillRect_def clearRect_def b)
  have "bitmap ?c' (152, 77) \<noteq> Css (getBackgroundColor exampleTheme)"
    unfolding b' by (simp add: getBackgroundColor_def exampleTheme_def or_else_def)
  moreover have "152 < width ?c'" "77 < height ?c'"
    by (simp_all add: fillRect_def clearRect_def w h)
  ultimately have nb: "\<not> isBlank (getBackgroundColor exampleTheme) ?c'"
    unfolding isBlank_iff by blast
  have wh: "width ?c' = 200" "height ?c' = 100"
    by (simp_all add: fillRect_def clearRect_def w h)
  show ?thesis
    unfolding handleClear_canvas [OF pc] using b' nb wh by simp
qed

lemma cleared_at_low_ratio:
  "\<exists>c'. canvas (fst (handleClear exampleTheme True
                        (fst (stopDrawing toDataURL True strokeAtLowRatio)))) = Some c' \<and>
        bitmap c' (152, 77) = Css ''#0f172a'' \<and>
        \<not> isBlank (getBackgroundColor exampleTheme) c'"
proof -
  from strokeAtLowRatio_canvas obtain c
    where c: "canvas strokeAtLowRatio = Some c" and w: "width c = 200" and h: "height c = 100"
      and s: "scale c = 1 / 2" and b: "bitmap c (152, 77) = Css ''#0f172a''"
    by blast
  let ?pad = "fst (stopDrawing toDataURL True strokeAtLowRatio)"
  have pc: "canvas ?pad = Some c"
    by (simp add: stopDrawing_def c)
  let ?c' = "fillRect ((clearRect c 0 0 (of_nat (width c)) (of_nat (height c)))
                \<lparr>fillStyle := getBackgroundColor exampleTheme\<rparr>)
             0 0 (of_nat (width c)) (of_nat (height c))"
  have out: "\<not> inRect (scale c) 0 0 (of_nat (width c)) (of_nat (height c)) (152, 77)"
    by (simp add: inRect_def centre_def w h s)
  have b': "bitmap ?c' (152, 77) = Css ''#0f172a''"
    using out by (simp add: fillRect_def clearRect_def b)
  have "bitmap ?c' (152, 77) \<noteq> Css (getBackgroundColor exampleTheme)"
    unfolding b' by (simp add: getBackgroundColor_def exampleTheme_def or_else_def)
  moreover have "152 < width ?c'" "77 < height ?c'"
    by (simp_all add: fillRect_def clearRect_def w h)
  ultimately have nb: "\<not> isBlank (getBackgroundColor exampleTheme) ?c'"
    unfolding isBlank_iff by blast
  have "canvas (fst (handleClear exampleTheme True ?pad)) = Some ?c'"
    by (simp add: handleClear_canvas [OF pc])
  with b' nb show ?thesis by blast
qed

text \<open>
  Claim C10 on a page zoomed out. At a device pixel ratio of 1/2, after a stroke
  through the pixel (152, 77), a pointer-up and a clear, the stored signature is absent
  and the pad is idle. The next pointer-up (or pointer-leave, or pointer-cancel)
  exports all the same and replaces the absent signature with the image of the current
  raster; but that raster is the one the clear left, which still holds the stroke at
  pixel (152, 77): the image stored is not one of a blank, background-only raster.
\<close>

theorem stop_after_clear_at_low_ratio:
  "technicianSignature
     (storeTechnicianSignature
        (snd (handleClear exampleTheme True (fst (stopDrawing toDataURL True strokeAtLowRatio))))
        st) = None \<and>
   drawing (fst (handleClear exampleTheme True
                  (fst (stopDrawing toDataURL True strokeAtLowRatio)))) = False \<and>
   (case canvas (fst (handleClear exampleTheme True
                        (fst (stopDrawing toDataURL True strokeAtLowRatio)))) of
      None \<Rightarrow> False
    | Some c \<Rightarrow>
        technicianSignature
          (storeTechnicianSignature
             (snd (stopDrawing toDataURL True
                    (fst (handleClear exampleTheme True
                           (fst (stopDrawing toDataURL True strokeAtLowRatio))))))
             (storeTechnicianSignature
                (snd (handleClear exampleTheme True
                       (fst (stopDrawing toDataURL True strokeAtLowRatio))))
                st)) = Some (toDataURL c) \<and>
        bitmap c (152, 77) = Css ''#0f172a'' \<and>
        \<not> isBlank (getBackgroundColor exampleTheme) c)"
proof -
  let ?pad = "fst (stopDrawing toDataURL True strokeAtLowRatio)"
  let ?cleared = "handleClear exampleTheme True ?pad"
  from cleared_at_low_ratio [of toDataURL] obtain c'
    where c': "canvas (fst ?cleared) = Some c'"
      and b: "bitmap c' (152, 77) = Css ''#0f172a''"
      and nb: "\<not> isBlank (getBackgroundColor exampleTheme) c'"
    by blast
  from strokeAtLowRatio_canvas obtain c where c: "canvas strokeAtLowRatio = Some c"
    by blast
  have pc: "canvas ?pad = Some c"
    by (simp add: stopDrawing_def c)
  have call: "snd ?cleared = Some None"
    by (simp add: handleClear_canvas [OF pc])
  have idle: "drawing (fst ?cleared) = False"
    unfolding handleClear_canvas [OF pc] by (simp add: stopDrawing_def)
  have absent: "technicianSignature (storeTechnicianSignature (snd ?cleared) st) = None"
    by (simp add: call storeTechnicianSignature_def)
  have stored: "technicianSignature
      (storeTechnicianSignature (snd (stopDrawing toDataURL True (fst ?cleared)))
         (storeTechnicianSignature (snd ?cleared) st)) = Some (toDataURL c')"
    by (simp add: stopDrawing_canvas [OF c'] storeTechnicianSignature_def)
  show ?thesis
    unfolding c' using absent idle stored b nb by simp
qed

end
